theory Spec2Isabelle
  imports Complex_Main "HOL-Library.Word"
begin

unbundle bit_operations_syntax

section \<open>The COMTRADE decoder of \<^verbatim>\<open>comtrade.py\<close>\<close>

text \<open>
  A shallow embedding of \<^verbatim>\<open>src/comtrade.py\<close>: the primitive field parsers
  (\<^verbatim>\<open>FileInfo\<close>, \<^verbatim>\<open>ChannelInfo\<close>, \<^verbatim>\<open>AnalogInfo\<close>, \<^verbatim>\<open>DigitalInfo\<close>,
  \<^verbatim>\<open>SampleInfo\<close>, \<^verbatim>\<open>TimeStamp\<close>), the configuration builder \<^verbatim>\<open>ComtradeConfig\<close>,
  the binary record decoder \<^verbatim>\<open>ComtradeData\<close> and the session object
  \<^verbatim>\<open>ComtradeParser\<close>. Plotting and export are not modelled.

  Modelling conventions.
  \<^item> A Python exception is a value \<open>Inl e\<close> of the result type \<open>error + 'a\<close>; the
    statements of a constructor are chained in source order, so the first statement
    that raises decides the error.
  \<^item> Python integers are \<open>int\<close>. Python floats are modelled as \<open>real\<close>: every float
    operation is taken exact, and the literals \<^verbatim>\<open>inf\<close> and \<^verbatim>\<open>nan\<close> have no
    counterpart (the model of \<^verbatim>\<open>float()\<close> rejects them).
  \<^item> A file system is a partial map from paths to byte contents; \<^verbatim>\<open>os.path.exists\<close> is
    definedness. Text is read byte per character, with Python's universal newlines.
  \<^item> \<^verbatim>\<open>struct.unpack('h', ...)\<close> uses the byte order of the host; the model fixes a
    little-endian host.
  \<^item> An object whose constructor returned early has only the attributes assigned so
    far; the attributes assigned later are an \<open>option\<close> component of the record, and
    reading them when absent is \<open>AttributeError\<close>. The display strings
    (\<^verbatim>\<open>self.str\<close>) are left out.
\<close>

subsection \<open>Python primitives\<close>

datatype error = ValueError | IndexError | ZeroDivisionError | StructError | AttributeError

type_synonym byte = "8 word"

type_synonym filesystem = "string \<rightharpoonup> byte list"

definition bind_err :: "error + 'a \<Rightarrow> ('a \<Rightarrow> error + 'b) \<Rightarrow> error + 'b" where
  "bind_err m f = (case m of Inl e \<Rightarrow> Inl e | Inr x \<Rightarrow> f x)"

text \<open>\<^verbatim>\<open>xs[i]\<close> for an index that is never negative in the source.\<close>

definition index_list :: "'a list \<Rightarrow> nat \<Rightarrow> error + 'a" where
  "index_list xs i = (if i < length xs then Inr (xs ! i) else Inl IndexError)"

text \<open>\<^verbatim>\<open>for i in is: s = f(i, s)\<close>, stopping at the first exception.\<close>

fun for_each :: "'i list \<Rightarrow> ('i \<Rightarrow> 's \<Rightarrow> error + 's) \<Rightarrow> 's \<Rightarrow> error + 's" where
  "for_each [] f s = Inr s"
| "for_each (i # is) f s = (case f i s of Inl e \<Rightarrow> Inl e | Inr s' \<Rightarrow> for_each is f s')"

text \<open>\<^verbatim>\<open>range(0, n)\<close>: empty when \<open>n\<close> is not positive.\<close>

definition py_range :: "int \<Rightarrow> nat list" where
  "py_range n = [0..<nat n]"

text \<open>\<^verbatim>\<open>xs[lo:hi]\<close>: a negative bound counts from the end, every bound is clipped.\<close>

definition slice_bound :: "nat \<Rightarrow> int \<Rightarrow> nat" where
  "slice_bound n i = (if i < 0 then nat (max (int n + i) 0) else min (nat i) n)"

definition py_slice :: "'a list \<Rightarrow> int \<Rightarrow> int \<Rightarrow> 'a list" where
  "py_slice xs lo hi = drop (slice_bound (length xs) lo) (take (slice_bound (length xs) hi) xs)"

text \<open>\<^verbatim>\<open>struct.unpack('h', bs)[0]\<close>: exactly two bytes, low byte first, two's complement.\<close>

definition unpack_h :: "byte list \<Rightarrow> error + int" where
  "unpack_h bs = (case bs of [lo, hi] \<Rightarrow> Inr (sint (word_cat hi lo :: 16 word)) | _ \<Rightarrow> Inl StructError)"

text \<open>\<^verbatim>\<open>s.split(sep)\<close> for a one-character separator.\<close>

fun split_on :: "char \<Rightarrow> string \<Rightarrow> string list" where
  "split_on sep [] = [[]]"
| "split_on sep (c # cs) =
     (if c = sep then [] # split_on sep cs
      else (case split_on sep cs of l # ls \<Rightarrow> (c # l) # ls | [] \<Rightarrow> [[c]]))"

text \<open>\<^verbatim>\<open>s.replace(pat, '')\<close>: every occurrence, left to right, without overlap.\<close>

function str_remove :: "string \<Rightarrow> string \<Rightarrow> string" where
  "str_remove pat [] = []"
| "str_remove pat (c # cs) =
     (if pat \<noteq> [] \<and> take (length pat) (c # cs) = pat
      then str_remove pat (drop (length pat) (c # cs))
      else c # str_remove pat cs)"
  by pat_completeness auto
termination
  by (relation "measure (\<lambda>(pat, s). length s)") auto

text \<open>\<^verbatim>\<open>pat in s\<close> on strings.\<close>

fun contains :: "string \<Rightarrow> string \<Rightarrow> bool" where
  "contains pat [] = (pat = [])"
| "contains pat (c # cs) = (take (length pat) (c # cs) = pat \<or> contains pat cs)"

text \<open>\<^verbatim>\<open>s.lower()\<close> on ASCII.\<close>

definition lower_char :: "char \<Rightarrow> char" where
  "lower_char c = (let n = (of_char c :: nat) in if 65 \<le> n \<and> n \<le> 90 then char_of (n + 32) else c)"

definition lower :: "string \<Rightarrow> string" where
  "lower s = map lower_char s"

definition is_space :: "char \<Rightarrow> bool" where
  "is_space c = (let n = (of_char c :: nat) in (9 \<le> n \<and> n \<le> 13) \<or> (28 \<le> n \<and> n \<le> 32))"

definition strip :: "string \<Rightarrow> string" where
  "strip s = rev (dropWhile is_space (rev (dropWhile is_space s)))"

definition is_digit :: "char \<Rightarrow> bool" where
  "is_digit c = (let n = (of_char c :: nat) in 48 \<le> n \<and> n \<le> 57)"

definition digit_val :: "char \<Rightarrow> nat" where
  "digit_val c = (of_char c :: nat) - 48"

text \<open>A run of decimal digits, single underscores allowed between two digits.\<close>

fun digitpart_ok :: "string \<Rightarrow> bool" where
  "digitpart_ok [] = False"
| "digitpart_ok [c] = is_digit c"
| "digitpart_ok (c # d # cs) =
     (is_digit c \<and> (if d = CHR ''_'' then digitpart_ok cs else digitpart_ok (d # cs)))"

definition digits_value :: "string \<Rightarrow> nat" where
  "digits_value s = foldl (\<lambda>acc c. 10 * acc + digit_val c) 0 (filter is_digit s)"

definition digitpart :: "string \<Rightarrow> error + nat" where
  "digitpart s = (if digitpart_ok s then Inr (digits_value s) else Inl ValueError)"

text \<open>An optional sign in front of \<open>s\<close>: the sign and the rest.\<close>

definition split_sign :: "string \<Rightarrow> bool \<times> string" where
  "split_sign s =
     (case s of [] \<Rightarrow> (False, [])
      | c # cs \<Rightarrow> if c = CHR ''-'' then (True, cs) else if c = CHR ''+'' then (False, cs) else (False, s))"

text \<open>
  \<^verbatim>\<open>int(s)\<close> in base ten, on ASCII text: surrounding white space, an optional sign,
  decimal digits with single underscores between them. Digits and spaces outside ASCII
  are beyond the byte-per-character model of text.
\<close>

definition py_int :: "string \<Rightarrow> error + int" where
  "py_int s =
     (case split_sign (strip s) of (neg, body) \<Rightarrow>
        bind_err (digitpart body) (\<lambda>n. Inr (if neg then - int n else int n)))"

text \<open>The text before the first character satisfying \<open>P\<close>, and the text after it if there is one.\<close>

definition split_first :: "(char \<Rightarrow> bool) \<Rightarrow> string \<Rightarrow> string \<times> string option" where
  "split_first P s =
     (takeWhile (\<lambda>c. \<not> P c) s,
      case dropWhile (\<lambda>c. \<not> P c) s of [] \<Rightarrow> None | _ # rest \<Rightarrow> Some rest)"

text \<open>
  \<^verbatim>\<open>float(s)\<close> on decimal literals: \<^verbatim>\<open>[sign] (digits [. [digits]] | . digits) [e [sign] digits]\<close>,
  with the exact decimal value.
\<close>

definition opt_digits :: "string \<Rightarrow> error + nat" where
  "opt_digits s = (if s = [] then Inr 0 else digitpart s)"

definition py_float :: "string \<Rightarrow> error + real" where
  "py_float s =
     (case split_sign (strip s) of (neg, body) \<Rightarrow>
      case split_first (\<lambda>c. c = CHR ''e'' \<or> c = CHR ''E'') body of (mant, expo) \<Rightarrow>
      case split_first (\<lambda>c. c = CHR ''.'') mant of (ip, fp) \<Rightarrow>
        bind_err (case fp of None \<Rightarrow> digitpart ip
                  | Some f \<Rightarrow> if ip = [] \<and> f = [] then Inl ValueError else opt_digits ip) (\<lambda>iv.
        bind_err (case fp of None \<Rightarrow> Inr (0, 0)
                  | Some f \<Rightarrow> bind_err (opt_digits f) (\<lambda>fv. Inr (fv, length (filter is_digit f)))) (\<lambda>(fv, fl).
        bind_err (case expo of None \<Rightarrow> Inr 0
                  | Some e \<Rightarrow> (case split_sign e of (eneg, ebody) \<Rightarrow>
                      bind_err (digitpart ebody) (\<lambda>ev. Inr (if eneg then - int ev else int ev)))) (\<lambda>ev.
        let m = real iv + real fv / 10 ^ fl;
            v = (if 0 \<le> ev then m * 10 ^ nat ev else m / 10 ^ nat (- ev))
        in Inr (if neg then - v else v)))))"

text \<open>Text mode: \<^verbatim>\<open>\r\n\<close> and a lone \<^verbatim>\<open>\r\<close> are read as \<^verbatim>\<open>\n\<close>.\<close>

fun universal_newlines :: "string \<Rightarrow> string" where
  "universal_newlines [] = []"
| "universal_newlines [c] = [if c = CHR 0x0D then CHR 0x0A else c]"
| "universal_newlines (c # d # cs) =
     (if c = CHR 0x0D
      then CHR 0x0A # (if d = CHR 0x0A then universal_newlines cs else universal_newlines (d # cs))
      else c # universal_newlines (d # cs))"

definition decode_text :: "byte list \<Rightarrow> string" where
  "decode_text bs = universal_newlines (map (\<lambda>b. char_of (unat b)) bs)"

text \<open>\<^verbatim>\<open>f.readlines()\<close>: every line keeps its terminator.\<close>

fun readlines :: "string \<Rightarrow> string list" where
  "readlines [] = []"
| "readlines (c # cs) =
     (if c = CHR 0x0A then [c] # readlines cs
      else (case readlines cs of [] \<Rightarrow> [[c]] | l # ls \<Rightarrow> (c # l) # ls))"

text \<open>
  \<^verbatim>\<open>numpy.linspace(start, stop, num)\<close> with the end point included: a negative \<open>num\<close>
  raises, the step is \<open>(stop - start) / (num - 1)\<close>, and the last entry is set to \<open>stop\<close>.
\<close>

definition linspace :: "real \<Rightarrow> real \<Rightarrow> int \<Rightarrow> error + real list" where
  "linspace start stop num =
     (if num < 0 then Inl ValueError
      else let n = nat num;
               delta = stop - start;
               y = map (\<lambda>i. if 0 < n - 1 then real i * (delta / real (n - 1)) + start
                             else real i * delta + start) [0..<n]
           in Inr (if 1 < n then y[n - 1 := stop] else y))"

subsection \<open>The descriptor classes\<close>

record AnalogInfo =
  a_num :: int
  a_ch_id :: string
  a_phase :: string
  a_ccbm :: string
  a_unit :: string
  a_a :: real
  a_b :: real
  a_skew :: real
  a_min :: real
  a_max :: real
  a_primary :: real
  a_secondary :: real
  a_ps :: string
  a_data :: "real list"

record DigitalInfo =
  d_num :: int
  d_ch_id :: string
  d_phase :: string
  d_ccbm :: string
  d_y :: int
  d_data :: "int list"

record FileInfo =
  station_name :: string
  rec_dev_id :: int
  rev_year :: string

record ChannelInfo =
  ci_total :: int
  ci_analog :: int
  ci_digital :: int

record SampleInfo =
  s_rate :: real
  s_end :: int

record TimeStamp =
  ts_day :: int
  ts_month :: int
  ts_year :: int
  ts_hour :: int
  ts_minute :: int
  ts_second :: real

text \<open>The first statements of every constructor: drop the line feeds, split at the commas.\<close>

definition split_fields :: "string \<Rightarrow> string list" where
  "split_fields infoStr = split_on CHR '','' (str_remove [CHR 0x0A] infoStr)"

definition AnalogInfo_init :: "string \<Rightarrow> error + AnalogInfo" where
  "AnalogInfo_init infoStr =
     (let buf = split_fields infoStr in
      bind_err (bind_err (index_list buf 0) py_int) (\<lambda>num.
      bind_err (index_list buf 1) (\<lambda>ch_id.
      bind_err (index_list buf 2) (\<lambda>phase.
      bind_err (index_list buf 3) (\<lambda>ccbm.
      bind_err (index_list buf 4) (\<lambda>unit.
      bind_err (bind_err (index_list buf 5) py_float) (\<lambda>a.
      bind_err (bind_err (index_list buf 6) py_float) (\<lambda>b.
      bind_err (bind_err (index_list buf 7) py_float) (\<lambda>skew.
      bind_err (bind_err (index_list buf 8) py_float) (\<lambda>min.
      bind_err (bind_err (index_list buf 9) py_float) (\<lambda>max.
      bind_err (bind_err (index_list buf 10) py_float) (\<lambda>primary.
      bind_err (bind_err (index_list buf 11) py_float) (\<lambda>secondary.
      bind_err (index_list buf 12) (\<lambda>ps.
      Inr \<lparr>a_num = num, a_ch_id = ch_id, a_phase = phase, a_ccbm = ccbm, a_unit = unit,
           a_a = a, a_b = b, a_skew = skew, a_min = min, a_max = max,
           a_primary = primary, a_secondary = secondary, a_ps = ps,
           a_data = []\<rparr>))))))))))))))"

text \<open>\<^verbatim>\<open>value = rawValue * self.a + self.b; self._data.append(value)\<close>\<close>

definition AnalogInfo_appendData :: "AnalogInfo \<Rightarrow> int \<Rightarrow> AnalogInfo" where
  "AnalogInfo_appendData self rawValue =
     self\<lparr>a_data := a_data self @ [real_of_int rawValue * a_a self + a_b self]\<rparr>"

definition DigitalInfo_init :: "string \<Rightarrow> error + DigitalInfo" where
  "DigitalInfo_init infoStr =
     (let buf = split_fields infoStr in
      bind_err (bind_err (index_list buf 0) py_int) (\<lambda>num.
      bind_err (index_list buf 1) (\<lambda>ch_id.
      bind_err (index_list buf 2) (\<lambda>phase.
      bind_err (index_list buf 3) (\<lambda>ccbm.
      bind_err (bind_err (index_list buf 4) py_int) (\<lambda>y.
      Inr \<lparr>d_num = num, d_ch_id = ch_id, d_phase = phase, d_ccbm = ccbm, d_y = y,
           d_data = []\<rparr>))))))"

text \<open>
  \<^verbatim>\<open>if value & (0x0001 << self.num): value = 1 else: value = 0\<close>. A shift by a negative
  count raises \<^verbatim>\<open>ValueError\<close>; \<^verbatim>\<open>&\<close> on Python integers is two's complement.
\<close>

definition digital_bit :: "int \<Rightarrow> int \<Rightarrow> int" where
  "digital_bit num v = (if v AND push_bit (nat num) 1 \<noteq> 0 then 1 else 0)"

definition DigitalInfo_appendData :: "DigitalInfo \<Rightarrow> int \<Rightarrow> error + DigitalInfo" where
  "DigitalInfo_appendData self v =
     (if d_num self < 0 then Inl ValueError
      else Inr (self\<lparr>d_data := d_data self @ [digital_bit (d_num self) v]\<rparr>))"

definition FileInfo_init :: "string \<Rightarrow> error + FileInfo" where
  "FileInfo_init infoStr =
     (let buf = split_fields infoStr in
      bind_err (index_list buf 0) (\<lambda>station.
      bind_err (bind_err (index_list buf 1) py_int) (\<lambda>dev.
      bind_err (index_list buf 2) (\<lambda>year.
      Inr \<lparr>station_name = station, rec_dev_id = dev, rev_year = year\<rparr>))))"

definition ChannelInfo_init :: "string \<Rightarrow> error + ChannelInfo" where
  "ChannelInfo_init infoStr =
     (let buf = split_fields infoStr in
      bind_err (bind_err (index_list buf 0) py_int) (\<lambda>total.
      bind_err (index_list buf 1) (\<lambda>f1.
      bind_err (if contains ''A'' f1 then py_int (str_remove ''A'' f1) else Inr 0) (\<lambda>analog.
      bind_err (index_list buf 2) (\<lambda>f2.
      bind_err (if contains ''D'' f2 then py_int (str_remove ''D'' f2) else Inr 0) (\<lambda>digital.
      Inr (if total \<noteq> analog + digital
           then \<lparr>ci_total = 0, ci_analog = 0, ci_digital = 0\<rparr>
           else \<lparr>ci_total = total, ci_analog = analog, ci_digital = digital\<rparr>)))))))"

definition SampleInfo_init :: "string \<Rightarrow> error + SampleInfo" where
  "SampleInfo_init infoStr =
     (let buf = split_fields infoStr in
      bind_err (bind_err (index_list buf 0) py_float) (\<lambda>rate.
      bind_err (bind_err (index_list buf 1) py_int) (\<lambda>e.
      Inr \<lparr>s_rate = rate, s_end = e\<rparr>)))"

definition TimeStamp_init :: "string \<Rightarrow> error + TimeStamp" where
  "TimeStamp_init infoStr =
     (let buf = split_fields infoStr in
      bind_err (index_list buf 0) (\<lambda>f0.
      let dateList = split_on CHR ''/'' f0 in
      bind_err (index_list buf 1) (\<lambda>f1.
      let timeList = split_on CHR '':'' f1 in
      bind_err (bind_err (index_list dateList 0) py_int) (\<lambda>day.
      bind_err (bind_err (index_list dateList 1) py_int) (\<lambda>month.
      bind_err (bind_err (index_list dateList 2) py_int) (\<lambda>year.
      bind_err (bind_err (index_list timeList 0) py_int) (\<lambda>hour.
      bind_err (bind_err (index_list timeList 1) py_int) (\<lambda>minute.
      bind_err (bind_err (index_list timeList 2) py_float) (\<lambda>second.
      Inr \<lparr>ts_day = day, ts_month = month, ts_year = year, ts_hour = hour,
           ts_minute = minute, ts_second = second\<rparr>)))))))))"

subsection \<open>\<^verbatim>\<open>ComtradeConfig\<close>\<close>

record ConfigContent =
  fileInfo :: FileInfo
  channelInfo :: ChannelInfo
  analogInfo :: "AnalogInfo list"
  digitalInfo :: "DigitalInfo list"
  frequency :: real
  nrates :: int
  sampleInfo :: "SampleInfo list"
  startTime :: TimeStamp
  triggerTime :: TimeStamp
  dataFormat :: string
  timemult :: real

record ComtradeConfig =
  cfg_path :: string
  cfg_result :: string
  cfg_content :: "ConfigContent option"

text \<open>
  \<^verbatim>\<open>for i in range(0, n): xs.append(C(infoStrs[index])); index += 1\<close>: the \<open>n\<close> lines
  from \<open>index\<close> on, each through the constructor \<open>C\<close>.
\<close>

fun parse_lines :: "(string \<Rightarrow> error + 'a) \<Rightarrow> string list \<Rightarrow> nat \<Rightarrow> nat \<Rightarrow> error + 'a list" where
  "parse_lines C infoStrs index 0 = Inr []"
| "parse_lines C infoStrs index (Suc n) =
     bind_err (bind_err (index_list infoStrs index) C) (\<lambda>x.
     bind_err (parse_lines C infoStrs (Suc index) n) (\<lambda>xs. Inr (x # xs)))"

definition ComtradeConfig_parse :: "string list \<Rightarrow> error + ConfigContent" where
  "ComtradeConfig_parse infoStrs =
     bind_err (bind_err (index_list infoStrs 0) FileInfo_init) (\<lambda>fi.
     bind_err (bind_err (index_list infoStrs 1) ChannelInfo_init) (\<lambda>ci.
     let na = nat (ci_analog ci); nd = nat (ci_digital ci) in
     bind_err (parse_lines AnalogInfo_init infoStrs 2 na) (\<lambda>ais.
     bind_err (parse_lines DigitalInfo_init infoStrs (2 + na) nd) (\<lambda>dis.
     let index = 2 + na + nd in
     bind_err (bind_err (index_list infoStrs index) py_float) (\<lambda>freq.
     bind_err (bind_err (index_list infoStrs (index + 1)) py_int) (\<lambda>nr.
     let ns = nat nr in
     bind_err (parse_lines SampleInfo_init infoStrs (index + 2) ns) (\<lambda>sis.
     let index2 = index + 2 + ns in
     bind_err (bind_err (index_list infoStrs index2) TimeStamp_init) (\<lambda>st.
     bind_err (bind_err (index_list infoStrs (index2 + 1)) TimeStamp_init) (\<lambda>tt.
     bind_err (index_list infoStrs (index2 + 2)) (\<lambda>fmt.
     bind_err (bind_err (index_list infoStrs (index2 + 3)) py_float) (\<lambda>tm.
     Inr \<lparr>fileInfo = fi, channelInfo = ci, analogInfo = ais, digitalInfo = dis,
          frequency = freq, nrates = nr, sampleInfo = sis, startTime = st,
          triggerTime = tt, dataFormat = lower fmt, timemult = tm\<rparr>)))))))))))"

definition ComtradeConfig_removeNextline :: "string list \<Rightarrow> string list" where
  "ComtradeConfig_removeNextline strList = map (str_remove [CHR 0x0A]) strList"

definition ComtradeConfig_init :: "filesystem \<Rightarrow> string \<Rightarrow> error + ComtradeConfig" where
  "ComtradeConfig_init fs filePath =
     (case fs filePath of
        None \<Rightarrow> Inr \<lparr>cfg_path = filePath, cfg_result = ''no file'', cfg_content = None\<rparr>
      | Some bytes \<Rightarrow>
          bind_err (ComtradeConfig_parse
                      (ComtradeConfig_removeNextline (readlines (decode_text bytes)))) (\<lambda>c.
          Inr \<lparr>cfg_path = filePath, cfg_result = ''parsed'', cfg_content = Some c\<rparr>))"

subsection \<open>\<^verbatim>\<open>ComtradeData\<close>\<close>

record DataBody =
  unitSize :: int
  sampleCount :: int
  deltaT :: real
  config :: ComtradeConfig
  analog_map :: "string \<rightharpoonup> real list"
  digital_map :: "string \<rightharpoonup> int list"

record ComtradeData =
  dat_result :: string
  dat_path :: string
  dat_body :: "DataBody option"

text \<open>
  The body of the loop over the analog channels:
  \<^verbatim>\<open>index = ch * 2 + analogIndex; raw = struct.unpack('h', data[index:index+2])[0];
  self.config.analogInfo[ch].appendData(raw)\<close>
\<close>

definition read_h :: "byte list \<Rightarrow> int \<Rightarrow> error + int" where
  "read_h data index = unpack_h (py_slice data index (index + 2))"

definition analog_step :: "byte list \<Rightarrow> int \<Rightarrow> nat \<Rightarrow> AnalogInfo list \<Rightarrow> error + AnalogInfo list" where
  "analog_step data analogIndex ch infos =
     bind_err (read_h data (int ch * 2 + analogIndex)) (\<lambda>raw.
     bind_err (index_list infos ch) (\<lambda>info.
     Inr (infos[ch := AnalogInfo_appendData info raw])))"

text \<open>
  The body of the loop over the digital channels:
  \<^verbatim>\<open>index = (ch // 16) * 2 + digitalIndex; raw = struct.unpack('h', data[index:index+2])[0];
  self.config.digitalInfo[ch].appendData(raw)\<close>
\<close>

definition digital_step :: "byte list \<Rightarrow> int \<Rightarrow> nat \<Rightarrow> DigitalInfo list \<Rightarrow> error + DigitalInfo list" where
  "digital_step data digitalIndex ch infos =
     bind_err (read_h data ((int ch div 16) * 2 + digitalIndex)) (\<lambda>raw.
     bind_err (index_list infos ch) (\<lambda>info.
     bind_err (DigitalInfo_appendData info raw) (\<lambda>info'.
     Inr (infos[ch := info']))))"

text \<open>The body of the loop over the samples.\<close>

definition sample_step ::
  "byte list \<Rightarrow> int \<Rightarrow> int \<Rightarrow> int \<Rightarrow> nat \<Rightarrow> AnalogInfo list \<times> DigitalInfo list
     \<Rightarrow> error + AnalogInfo list \<times> DigitalInfo list" where
  "sample_step data usize analogChNum digitalChNum i st =
     (case st of (ais, dis) \<Rightarrow>
      bind_err (for_each (py_range analogChNum) (analog_step data (int i * usize + 8)) ais) (\<lambda>ais'.
      bind_err (for_each (py_range digitalChNum)
                  (digital_step data (int i * usize + 8 + 2 * analogChNum)) dis) (\<lambda>dis'.
      Inr (ais', dis'))))"

definition digitalBytesLen :: "int \<Rightarrow> int" where
  "digitalBytesLen digitalChNum =
     (if digitalChNum mod 16 \<noteq> 0 then 2 * ((digitalChNum div 16) + 1)
      else 2 * (digitalChNum div 16))"

text \<open>
  \<^verbatim>\<open>for each in self.config.analogInfo: self._analog[each.ch_id + '(%s)' % each.unit] = each.data()\<close>
  and the same for the digital channels; a later channel with the same key overwrites.
\<close>

definition analog_key :: "AnalogInfo \<Rightarrow> string" where
  "analog_key each = a_ch_id each @ ''('' @ a_unit each @ '')''"

definition build_analog :: "AnalogInfo list \<Rightarrow> (string \<rightharpoonup> real list)" where
  "build_analog infos = foldl (\<lambda>m each. m(analog_key each \<mapsto> a_data each)) Map.empty infos"

definition build_digital :: "DigitalInfo list \<Rightarrow> (string \<rightharpoonup> int list)" where
  "build_digital infos = foldl (\<lambda>m each. m(d_ch_id each \<mapsto> d_data each)) Map.empty infos"

text \<open>\<^verbatim>\<open>pathList = config.path.split('.'); self.path = pathList[0] + '.dat'\<close>\<close>

definition dat_path_of :: "string \<Rightarrow> string" where
  "dat_path_of p = hd (split_on CHR ''.'' p) @ ''.dat''"

definition content_of :: "ComtradeConfig \<Rightarrow> error + ConfigContent" where
  "content_of cfg = (case cfg_content cfg of None \<Rightarrow> Inl AttributeError | Some c \<Rightarrow> Inr c)"

text \<open>The constructor from \<^verbatim>\<open>analogChNum = config.channelInfo.analog\<close> on, once the file is read.\<close>

definition ComtradeData_decode :: "byte list \<Rightarrow> string \<Rightarrow> ComtradeConfig \<Rightarrow> error + ComtradeData" where
  "ComtradeData_decode data path cfg =
     bind_err (content_of cfg) (\<lambda>c.
     let analogChNum = ci_analog (channelInfo c);
         digitalChNum = ci_digital (channelInfo c);
         analogBytesLen = 2 * analogChNum;
         usize = 4 + 4 + digitalBytesLen digitalChNum + analogBytesLen
     in
     bind_err (index_list (sampleInfo c) 0) (\<lambda>s0.
     let count = s_end s0 in
     if s_rate s0 = 0 then Inl ZeroDivisionError
     else
     bind_err (for_each (py_range count) (sample_step data usize analogChNum digitalChNum)
                 (analogInfo c, digitalInfo c)) (\<lambda>(ais, dis).
     Inr \<lparr>dat_result = ''parsed'', dat_path = path,
          dat_body = Some \<lparr>unitSize = usize, sampleCount = count,
                           deltaT = 1 / s_rate s0,
                           config = cfg\<lparr>cfg_content :=
                                      Some (c\<lparr>analogInfo := ais, digitalInfo := dis\<rparr>)\<rparr>,
                           analog_map = build_analog ais,
                           digital_map = build_digital dis\<rparr>\<rparr>)))"

definition ComtradeData_init :: "filesystem \<Rightarrow> ComtradeConfig \<Rightarrow> error + ComtradeData" where
  "ComtradeData_init fs cfg =
     (let path = dat_path_of (cfg_path cfg) in
      if cfg_result cfg \<noteq> ''parsed''
      then Inr \<lparr>dat_result = ''none'', dat_path = path, dat_body = None\<rparr>
      else case fs path of
        None \<Rightarrow> Inr \<lparr>dat_result = ''no file'', dat_path = path, dat_body = None\<rparr>
      | Some data \<Rightarrow> ComtradeData_decode data path cfg)"

definition body_of :: "ComtradeData \<Rightarrow> error + DataBody" where
  "body_of d = (case dat_body d of None \<Rightarrow> Inl AttributeError | Some b \<Rightarrow> Inr b)"

text \<open>
  \<^verbatim>\<open>def t(self)\<close>: \<^verbatim>\<open>np.linspace(0.0, self.deltaT * self.sampleCount, self.sampleCount)\<close> when
  the result is \<^verbatim>\<open>'parsed'\<close>, \<^verbatim>\<open>np.zeros(0)\<close> otherwise.
\<close>

definition ComtradeData_t :: "ComtradeData \<Rightarrow> error + real list" where
  "ComtradeData_t d =
     (if dat_result d = ''parsed''
      then bind_err (body_of d) (\<lambda>b.
             linspace 0 (deltaT b * real_of_int (sampleCount b)) (sampleCount b))
      else Inr [])"

definition ComtradeData_analog :: "ComtradeData \<Rightarrow> error + (string \<rightharpoonup> real list)" where
  "ComtradeData_analog d =
     (if dat_result d = ''parsed'' then bind_err (body_of d) (\<lambda>b. Inr (analog_map b))
      else Inr Map.empty)"

definition ComtradeData_digital :: "ComtradeData \<Rightarrow> error + (string \<rightharpoonup> int list)" where
  "ComtradeData_digital d =
     (if dat_result d = ''parsed'' then bind_err (body_of d) (\<lambda>b. Inr (digital_map b))
      else Inr Map.empty)"

subsection \<open>\<^verbatim>\<open>ComtradeParser\<close>\<close>

record Session =
  p_path :: string
  p_config :: ComtradeConfig
  p_dat :: ComtradeData
  p_analog :: "string \<rightharpoonup> real list"
  p_digital :: "string \<rightharpoonup> int list"
  p_t :: "real list"
  p_fs :: real

record ComtradeParser =
  p_result :: string
  p_session :: "Session option"

definition ComtradeParser_init :: "filesystem \<Rightarrow> string \<Rightarrow> error + ComtradeParser" where
  "ComtradeParser_init fs path0 =
     (if \<not> contains ''.cfg'' path0 \<and> \<not> contains ''.dat'' path0
      then Inr \<lparr>p_result = ''not a comtrade file: '' @ path0, p_session = None\<rparr>
      else
        let path = (if contains ''.cfg'' path0 then str_remove ''.cfg'' path0
                    else str_remove ''.dat'' path0)
        in
        bind_err (ComtradeConfig_init fs (path @ ''.cfg'')) (\<lambda>cfg.
        bind_err (ComtradeData_init fs cfg) (\<lambda>dat.
        bind_err (ComtradeData_analog dat) (\<lambda>an.
        bind_err (ComtradeData_digital dat) (\<lambda>di.
        bind_err (ComtradeData_t dat) (\<lambda>t.
        bind_err (content_of cfg) (\<lambda>c.
        bind_err (index_list (sampleInfo c) 0) (\<lambda>s0.
        Inr \<lparr>p_result = ''parsed'',
             p_session = Some \<lparr>p_path = path, p_config = cfg, p_dat = dat, p_analog = an,
                                p_digital = di, p_t = t, p_fs = s_rate s0\<rparr>\<rparr>))))))))"

subsection \<open>Reference notions of the specification\<close>

text \<open>
  The specification's reading of a sample word: the little-endian signed 16-bit
  integer at a byte offset counted from the start of the buffer.
\<close>

definition le_s16_at :: "byte list \<Rightarrow> nat \<Rightarrow> int option" where
  "le_s16_at data off =
     (if off + 2 \<le> length data
      then Some (sint (word_cat (data ! (off + 1)) (data ! off) :: 16 word))
      else None)"

text \<open>
  What a decoding run hands to its consumers (the time vector and the two mappings), and
  a configuration with its data-encoding token replaced.
\<close>

definition outputs :: "ComtradeData \<Rightarrow>
    (error + real list) \<times> (error + (string \<rightharpoonup> real list)) \<times> (error + (string \<rightharpoonup> int list))" where
  "outputs d = (ComtradeData_t d, ComtradeData_analog d, ComtradeData_digital d)"

definition with_dataFormat :: "string \<Rightarrow> ComtradeConfig \<Rightarrow> ComtradeConfig" where
  "with_dataFormat tok cfg = cfg\<lparr>cfg_content := map_option (\<lambda>c. c\<lparr>dataFormat := tok\<rparr>) (cfg_content cfg)\<rparr>"


subsection \<open>A worked recording\<close>

text \<open>
  The scenario of the specification: two analog channels and one digital channel, one
  sample-rate segment with rate 1000 and end 3, and a binary file of three records of
  14 bytes. It is the concrete input at which the theorems below are instantiated.
\<close>

definition scenario_lines :: "string list" where
  "scenario_lines =
     [''st,1,1999'',
      ''3,2A,1D'',
      ''1,UA,A,FI,V,0.5,1,0,-32767,32767,1,1,p'',
      ''2,UB,B,FI,V,2,-1,0,-32767,32767,1,1,p'',
      ''1,ASOE,,,0'',
      ''50'',
      ''1'',
      ''1000,3'',
      ''01/02/2000,10:11:12.5'',
      ''01/02/2000,10:11:13.5'',
      ''BINARY'',
      ''1'']"

definition encode_text :: "string \<Rightarrow> byte list" where
  "encode_text s = map of_char s"

definition scenario_cfg :: "byte list" where
  "scenario_cfg = encode_text (concat (map (\<lambda>l. l @ [CHR 0x0A]) scenario_lines))"

definition scenario_dat :: "byte list" where
  "scenario_dat =
     [1, 0, 0, 0,  0, 0, 0, 0,  2, 0,  0xFF, 0xFF,  2, 0,
      2, 0, 0, 0,  0, 0, 0, 0,  4, 0,  0xFE, 0xFF,  0, 0,
      3, 0, 0, 0,  0, 0, 0, 0,  0, 1,  0x00, 0x80,  0xFF, 0xFF]"

definition scenario_fs :: filesystem where
  "scenario_fs = [''rec.cfg'' \<mapsto> scenario_cfg, ''rec.dat'' \<mapsto> scenario_dat]"

definition scenario_analog :: "real list \<Rightarrow> real list \<Rightarrow> AnalogInfo list" where
  "scenario_analog xs ys =
     [\<lparr>a_num = 1, a_ch_id = ''UA'', a_phase = ''A'', a_ccbm = ''FI'', a_unit = ''V'',
       a_a = 1 / 2, a_b = 1, a_skew = 0, a_min = - 32767, a_max = 32767,
       a_primary = 1, a_secondary = 1, a_ps = ''p'', a_data = xs\<rparr>,
      \<lparr>a_num = 2, a_ch_id = ''UB'', a_phase = ''B'', a_ccbm = ''FI'', a_unit = ''V'',
       a_a = 2, a_b = - 1, a_skew = 0, a_min = - 32767, a_max = 32767,
       a_primary = 1, a_secondary = 1, a_ps = ''p'', a_data = ys\<rparr>]"

definition scenario_digital :: "int list \<Rightarrow> DigitalInfo list" where
  "scenario_digital zs =
     [\<lparr>d_num = 1, d_ch_id = ''ASOE'', d_phase = [], d_ccbm = [], d_y = 0, d_data = zs\<rparr>]"

definition scenario_content :: "AnalogInfo list \<Rightarrow> DigitalInfo list \<Rightarrow> ConfigContent" where
  "scenario_content ais dis =
     \<lparr>fileInfo = \<lparr>station_name = ''st'', rec_dev_id = 1, rev_year = ''1999''\<rparr>,
      channelInfo = \<lparr>ci_total = 3, ci_analog = 2, ci_digital = 1\<rparr>,
      analogInfo = ais,
      digitalInfo = dis,
      frequency = 50, nrates = 1,
      sampleInfo = [\<lparr>s_rate = 1000, s_end = 3\<rparr>],
      startTime = \<lparr>ts_day = 1, ts_month = 2, ts_year = 2000, ts_hour = 10,
                   ts_minute = 11, ts_second = 25 / 2\<rparr>,
      triggerTime = \<lparr>ts_day = 1, ts_month = 2, ts_year = 2000, ts_hour = 10,
                     ts_minute = 11, ts_second = 27 / 2\<rparr>,
      dataFormat = ''binary'', timemult = 1\<rparr>"

definition scenario_parsed :: ConfigContent where
  "scenario_parsed = scenario_content (scenario_analog [] []) (scenario_digital [])"

definition scenario_decoded :: ConfigContent where
  "scenario_decoded =
     scenario_content (scenario_analog [2, 3, 129] [- 3, - 5, - 65537]) (scenario_digital [1, 0, 1])"

definition scenario_config :: ComtradeConfig where
  "scenario_config = \<lparr>cfg_path = ''rec.cfg'', cfg_result = ''parsed'', cfg_content = Some scenario_parsed\<rparr>"

definition scenario_body :: DataBody where
  "scenario_body =
     \<lparr>unitSize = 14, sampleCount = 3, deltaT = 1 / 1000,
      config = \<lparr>cfg_path = ''rec.cfg'', cfg_result = ''parsed'', cfg_content = Some scenario_decoded\<rparr>,
      analog_map = build_analog (analogInfo scenario_decoded),
      digital_map = build_digital (digitalInfo scenario_decoded)\<rparr>"

definition scenario_data :: ComtradeData where
  "scenario_data = \<lparr>dat_result = ''parsed'', dat_path = ''rec.dat'', dat_body = Some scenario_body\<rparr>"

definition scenario_session :: Session where
  "scenario_session =
     \<lparr>p_path = ''rec'', p_config = scenario_config, p_dat = scenario_data,
      p_analog = build_analog (analogInfo scenario_decoded),
      p_digital = build_digital (digitalInfo scenario_decoded),
      p_t = [0, 3 / 2000, 3 / 1000], p_fs = 1000\<rparr>"

definition scenario_parser :: ComtradeParser where
  "scenario_parser = \<lparr>p_result = ''parsed'', p_session = Some scenario_session\<rparr>"

text \<open>The same recording without its binary file, and a configuration whose file is missing.\<close>

definition cfg_only_fs :: filesystem where
  "cfg_only_fs = [''rec.cfg'' \<mapsto> scenario_cfg]"


definition cfg_only_session :: Session where
  "cfg_only_session =
     \<lparr>p_path = ''rec'', p_config = scenario_config,
      p_dat = \<lparr>dat_result = ''no file'', dat_path = ''rec.dat'', dat_body = None\<rparr>,
      p_analog = Map.empty, p_digital = Map.empty, p_t = [], p_fs = 1000\<rparr>"

definition cfg_only_parser :: ComtradeParser where
  "cfg_only_parser = \<lparr>p_result = ''parsed'', p_session = Some cfg_only_session\<rparr>"

text \<open>
  A recording whose layout line declares a negative analog count: \<^verbatim>\<open>int()\<close> accepts
  \<^verbatim>\<open>-6\<close>, and the total \<open>0 = - 6 + 6\<close> passes the layout check.
\<close>

definition neg_lines :: "string list" where
  "neg_lines =
     [''st,1,1999'',
      ''0,-6A,6D'',
      ''1,D1,,,0'',
      ''2,D2,,,0'',
      ''3,D3,,,0'',
      ''4,D4,,,0'',
      ''5,D5,,,0'',
      ''6,D6,,,0'',
      ''50'',
      ''1'',
      ''1000,1'',
      ''01/02/2000,10:11:12.5'',
      ''01/02/2000,10:11:13.5'',
      ''BINARY'',
      ''1'']"

definition neg_dat :: "byte list" where
  "neg_dat = [0, 0, 0, 0,  2, 0,  0, 0]"

definition neg_channel :: "int \<Rightarrow> string \<Rightarrow> int list \<Rightarrow> DigitalInfo" where
  "neg_channel k name zs =
     \<lparr>d_num = k, d_ch_id = name, d_phase = [], d_ccbm = [], d_y = 0, d_data = zs\<rparr>"

definition neg_digital :: "int list list \<Rightarrow> DigitalInfo list" where
  "neg_digital zss =
     map (\<lambda>((k, name), zs). neg_channel k name zs)
       (zip [(1, ''D1''), (2, ''D2''), (3, ''D3''), (4, ''D4''), (5, ''D5''), (6, ''D6'')] zss)"

definition neg_content :: "int list list \<Rightarrow> ConfigContent" where
  "neg_content zss =
     (scenario_content [] (neg_digital zss))
       \<lparr>channelInfo := \<lparr>ci_total = 0, ci_analog = - 6, ci_digital = 6\<rparr>,
        sampleInfo := [\<lparr>s_rate = 1000, s_end = 1\<rparr>]\<rparr>"

definition neg_config :: ComtradeConfig where
  "neg_config = \<lparr>cfg_path = ''neg.cfg'', cfg_result = ''parsed'',
                  cfg_content = Some (neg_content [[], [], [], [], [], []])\<rparr>"

definition neg_fs :: filesystem where
  "neg_fs = [''neg.dat'' \<mapsto> neg_dat]"

definition neg_body :: DataBody where
  "neg_body =
     \<lparr>unitSize = - 2, sampleCount = 1, deltaT = 1 / 1000,
      config = \<lparr>cfg_path = ''neg.cfg'', cfg_result = ''parsed'',
                cfg_content = Some (neg_content [[1], [0], [0], [0], [0], [0]])\<rparr>,
      analog_map = build_analog [],
      digital_map = build_digital (neg_digital [[1], [0], [0], [0], [0], [0]])\<rparr>"

text \<open>
  The worked recording under a configuration name with two dots, next to a binary
  file that is not its sibling.
\<close>

definition stray_fs :: filesystem where
  "stray_fs = [''a.b.cfg'' \<mapsto> scenario_cfg, ''a.dat'' \<mapsto> scenario_dat]"

definition stray_config :: ComtradeConfig where
  "stray_config = \<lparr>cfg_path = ''a.b.cfg'', cfg_result = ''parsed'', cfg_content = Some scenario_parsed\<rparr>"




section \<open>Properties\<close>

subsection \<open>The error monad and the loops\<close>


lemma bind_err_Inr [simp]: "bind_err (Inr x) f = f x"
  by (simp add: bind_err_def)

lemma bind_err_Inl [simp]: "bind_err (Inl e) f = Inl e"
  by (simp add: bind_err_def)

lemma bind_err_eq_Inr: "bind_err m f = Inr y \<longleftrightarrow> (\<exists>x. m = Inr x \<and> f x = Inr y)"
  by (cases m) simp_all


lemma index_list_eq_Inr: "index_list xs i = Inr x \<longleftrightarrow> i < length xs \<and> x = xs ! i"
  by (auto simp: index_list_def)

lemma for_each_append:
  "for_each (xs @ ys) f s = bind_err (for_each xs f s) (for_each ys f)"
  by (induction xs arbitrary: s) (simp_all split: sum.splits)

lemma for_each_upt_Suc:
  "for_each [0..<Suc n] f s = bind_err (for_each [0..<n] f s) (f n)"
  by (cases "for_each [0..<n] f s") (simp_all add: for_each_append split: sum.splits)

lemma analog_step_Inr:
  "analog_step data base ch infos = Inr infos' \<longleftrightarrow>
     (\<exists>raw. read_h data (int ch * 2 + base) = Inr raw \<and> ch < length infos \<and>
            infos' = infos[ch := AnalogInfo_appendData (infos ! ch) raw])"
  by (auto simp: analog_step_def bind_err_eq_Inr index_list_eq_Inr)

lemma digital_step_Inr:
  "digital_step data base ch infos = Inr infos' \<longleftrightarrow>
     (\<exists>raw info'. read_h data ((int ch div 16) * 2 + base) = Inr raw \<and> ch < length infos \<and>
            DigitalInfo_appendData (infos ! ch) raw = Inr info' \<and> infos' = infos[ch := info'])"
  by (auto simp: digital_step_def bind_err_eq_Inr index_list_eq_Inr)

lemma analog_loop:
  "for_each [0..<n] (analog_step data base) ais = Inr ais' \<Longrightarrow>
     length ais' = length ais \<and> n \<le> length ais \<and>
     (\<forall>ch<n. \<exists>raw. read_h data (int ch * 2 + base) = Inr raw \<and>
                    ais' ! ch = AnalogInfo_appendData (ais ! ch) raw) \<and>
     (\<forall>ch. n \<le> ch \<longrightarrow> ais' ! ch = ais ! ch)"
proof (induction n arbitrary: ais')
  case 0
  then show ?case by simp
next
  case (Suc n)
  from Suc.prems obtain mid where mid: "for_each [0..<n] (analog_step data base) ais = Inr mid"
    and step: "analog_step data base n mid = Inr ais'"
    unfolding for_each_upt_Suc bind_err_eq_Inr by blast
  note ih = Suc.IH [OF mid]
  from step obtain raw where raw: "read_h data (int n * 2 + base) = Inr raw"
    and n: "n < length mid" and eq: "ais' = mid[n := AnalogInfo_appendData (mid ! n) raw]"
    unfolding analog_step_Inr by blast
  have "mid ! n = ais ! n" using ih by simp
  with ih raw n eq show ?case
    by (auto simp: nth_list_update less_Suc_eq)
qed

lemma digital_loop:
  "for_each [0..<n] (digital_step data base) dis = Inr dis' \<Longrightarrow>
     length dis' = length dis \<and> n \<le> length dis \<and>
     (\<forall>ch<n. \<exists>raw. read_h data ((int ch div 16) * 2 + base) = Inr raw \<and>
                    DigitalInfo_appendData (dis ! ch) raw = Inr (dis' ! ch)) \<and>
     (\<forall>ch. n \<le> ch \<longrightarrow> dis' ! ch = dis ! ch)"
proof (induction n arbitrary: dis')
  case 0
  then show ?case by simp
next
  case (Suc n)
  from Suc.prems obtain mid where mid: "for_each [0..<n] (digital_step data base) dis = Inr mid"
    and step: "digital_step data base n mid = Inr dis'"
    unfolding for_each_upt_Suc bind_err_eq_Inr by blast
  note ih = Suc.IH [OF mid]
  from step obtain raw info' where raw: "read_h data ((int n div 16) * 2 + base) = Inr raw"
    and n: "n < length mid" and app: "DigitalInfo_appendData (mid ! n) raw = Inr info'"
    and eq: "dis' = mid[n := info']"
    unfolding digital_step_Inr by blast
  have "mid ! n = dis ! n" using ih by simp
  with ih raw n eq app show ?case
    by (auto simp: nth_list_update less_Suc_eq)
qed


lemma sample_step_Inr:
  "sample_step data u A D i (ais, dis) = Inr (ais', dis') \<longleftrightarrow>
     for_each [0..<nat A] (analog_step data (int i * u + 8)) ais = Inr ais' \<and>
     for_each [0..<nat D] (digital_step data (int i * u + 8 + 2 * A)) dis = Inr dis'"
  by (auto simp: sample_step_def py_range_def bind_err_eq_Inr)

lemma sample_loop_split:
  assumes "for_each [0..<Suc m] (sample_step data u A D) (ais, dis) = Inr (ais', dis')"
  obtains ma md where "for_each [0..<m] (sample_step data u A D) (ais, dis) = Inr (ma, md)"
    and "for_each [0..<nat A] (analog_step data (int m * u + 8)) ma = Inr ais'"
    and "for_each [0..<nat D] (digital_step data (int m * u + 8 + 2 * A)) md = Inr dis'"
proof -
  from assms obtain mid where mid: "for_each [0..<m] (sample_step data u A D) (ais, dis) = Inr mid"
    and step: "sample_step data u A D m mid = Inr (ais', dis')"
    unfolding for_each_upt_Suc bind_err_eq_Inr by blast
  obtain ma md where "mid = (ma, md)" by (cases mid)
  with mid step that show thesis by (simp add: sample_step_Inr)
qed

lemma sample_loop_analog:
  "for_each [0..<m] (sample_step data u A D) (ais, dis) = Inr (ais', dis') \<Longrightarrow>
     length ais' = length ais \<and> (0 < m \<longrightarrow> nat A \<le> length ais) \<and>
     (\<forall>ch<nat A. \<exists>vals. length vals = m \<and>
        ais' ! ch = (ais ! ch)\<lparr>a_data := a_data (ais ! ch) @ vals\<rparr> \<and>
        (\<forall>i<m. \<exists>raw. read_h data (int ch * 2 + (int i * u + 8)) = Inr raw \<and>
                 vals ! i = real_of_int raw * a_a (ais ! ch) + a_b (ais ! ch))) \<and>
     (\<forall>ch. nat A \<le> ch \<longrightarrow> ais' ! ch = ais ! ch)"
proof (induction m arbitrary: ais' dis')
  case 0
  then show ?case by simp
next
  case (Suc m)
  from Suc.prems obtain ma md
    where mid: "for_each [0..<m] (sample_step data u A D) (ais, dis) = Inr (ma, md)"
      and al: "for_each [0..<nat A] (analog_step data (int m * u + 8)) ma = Inr ais'"
    by (rule sample_loop_split)
  note ih = Suc.IH [OF mid]
  note al' = analog_loop [OF al]
  have len: "length ais' = length ais" using al' ih by simp
  have bound: "nat A \<le> length ais" using al' ih by simp
  have rest: "\<forall>ch. nat A \<le> ch \<longrightarrow> ais' ! ch = ais ! ch" using al' ih by simp
  have chan: "\<exists>vals. length vals = Suc m \<and>
        ais' ! ch = (ais ! ch)\<lparr>a_data := a_data (ais ! ch) @ vals\<rparr> \<and>
        (\<forall>i<Suc m. \<exists>raw. read_h data (int ch * 2 + (int i * u + 8)) = Inr raw \<and>
                 vals ! i = real_of_int raw * a_a (ais ! ch) + a_b (ais ! ch))"
    if ch: "ch < nat A" for ch
  proof -
    from ih ch obtain vals where v1: "length vals = m"
      and v2: "ma ! ch = (ais ! ch)\<lparr>a_data := a_data (ais ! ch) @ vals\<rparr>"
      and v3: "\<forall>i<m. \<exists>raw. read_h data (int ch * 2 + (int i * u + 8)) = Inr raw \<and>
                 vals ! i = real_of_int raw * a_a (ais ! ch) + a_b (ais ! ch)"
      by blast
    from al' ch obtain raw where r1: "read_h data (int ch * 2 + (int m * u + 8)) = Inr raw"
      and r2: "ais' ! ch = AnalogInfo_appendData (ma ! ch) raw"
      by blast
    let ?x = "real_of_int raw * a_a (ais ! ch) + a_b (ais ! ch)"
    have a: "length (vals @ [?x]) = Suc m" using v1 by simp
    have b: "ais' ! ch = (ais ! ch)\<lparr>a_data := a_data (ais ! ch) @ (vals @ [?x])\<rparr>"
      using r2 v2 by (simp add: AnalogInfo_appendData_def)
    have c: "\<forall>i<Suc m. \<exists>raw. read_h data (int ch * 2 + (int i * u + 8)) = Inr raw \<and>
                 (vals @ [?x]) ! i = real_of_int raw * a_a (ais ! ch) + a_b (ais ! ch)"
      using v1 v3 r1 by (auto simp: less_Suc_eq nth_append)
    from a b c show ?thesis by blast
  qed
  from len bound rest chan show ?case by blast
qed

lemma DigitalInfo_appendData_Inr:
  "DigitalInfo_appendData info raw = Inr info' \<longleftrightarrow>
     0 \<le> d_num info \<and> info' = info\<lparr>d_data := d_data info @ [digital_bit (d_num info) raw]\<rparr>"
  by (auto simp: DigitalInfo_appendData_def)

lemma sample_loop_digital:
  "for_each [0..<m] (sample_step data u A D) (ais, dis) = Inr (ais', dis') \<Longrightarrow>
     length dis' = length dis \<and> (0 < m \<longrightarrow> nat D \<le> length dis) \<and>
     (\<forall>ch<nat D. \<exists>vals. length vals = m \<and>
        dis' ! ch = (dis ! ch)\<lparr>d_data := d_data (dis ! ch) @ vals\<rparr> \<and>
        (\<forall>i<m. 0 \<le> d_num (dis ! ch) \<and>
           (\<exists>raw. read_h data ((int ch div 16) * 2 + (int i * u + 8 + 2 * A)) = Inr raw \<and>
                 vals ! i = digital_bit (d_num (dis ! ch)) raw))) \<and>
     (\<forall>ch. nat D \<le> ch \<longrightarrow> dis' ! ch = dis ! ch)"
proof (induction m arbitrary: ais' dis')
  case 0
  then show ?case by simp
next
  case (Suc m)
  from Suc.prems obtain ma md
    where mid: "for_each [0..<m] (sample_step data u A D) (ais, dis) = Inr (ma, md)"
      and dl: "for_each [0..<nat D] (digital_step data (int m * u + 8 + 2 * A)) md = Inr dis'"
    by (rule sample_loop_split)
  note ih = Suc.IH [OF mid]
  note dl' = digital_loop [OF dl]
  have len: "length dis' = length dis" using dl' ih by simp
  have bound: "nat D \<le> length dis" using dl' ih by simp
  have rest: "\<forall>ch. nat D \<le> ch \<longrightarrow> dis' ! ch = dis ! ch" using dl' ih by simp
  have chan: "\<exists>vals. length vals = Suc m \<and>
        dis' ! ch = (dis ! ch)\<lparr>d_data := d_data (dis ! ch) @ vals\<rparr> \<and>
        (\<forall>i<Suc m. 0 \<le> d_num (dis ! ch) \<and>
           (\<exists>raw. read_h data ((int ch div 16) * 2 + (int i * u + 8 + 2 * A)) = Inr raw \<and>
                 vals ! i = digital_bit (d_num (dis ! ch)) raw))"
    if ch: "ch < nat D" for ch
  proof -
    from ih ch obtain vals where v1: "length vals = m"
      and v2: "md ! ch = (dis ! ch)\<lparr>d_data := d_data (dis ! ch) @ vals\<rparr>"
      and v3: "\<forall>i<m. 0 \<le> d_num (dis ! ch) \<and>
           (\<exists>raw. read_h data ((int ch div 16) * 2 + (int i * u + 8 + 2 * A)) = Inr raw \<and>
                 vals ! i = digital_bit (d_num (dis ! ch)) raw)"
      by blast
    from dl' ch obtain raw
      where r1: "read_h data ((int ch div 16) * 2 + (int m * u + 8 + 2 * A)) = Inr raw"
        and r2: "DigitalInfo_appendData (md ! ch) raw = Inr (dis' ! ch)"
      by blast
    let ?x = "digital_bit (d_num (dis ! ch)) raw"
    from r2 v2 have nonneg: "0 \<le> d_num (dis ! ch)"
      and b: "dis' ! ch = (dis ! ch)\<lparr>d_data := d_data (dis ! ch) @ (vals @ [?x])\<rparr>"
      by (simp_all add: DigitalInfo_appendData_Inr)
    have a: "length (vals @ [?x]) = Suc m" using v1 by simp
    have c: "\<forall>i<Suc m. 0 \<le> d_num (dis ! ch) \<and>
           (\<exists>raw. read_h data ((int ch div 16) * 2 + (int i * u + 8 + 2 * A)) = Inr raw \<and>
                 (vals @ [?x]) ! i = digital_bit (d_num (dis ! ch)) raw)"
      using v1 v3 r1 nonneg by (auto simp: less_Suc_eq nth_append)
    from a b c show ?thesis by blast
  qed
  from len bound rest chan show ?case by blast
qed

subsection \<open>Reading a sample word\<close>

lemma digitalBytesLen_ceiling: "digitalBytesLen D = 2 * \<lceil>real_of_int D / 16\<rceil>"
proof -
  have "\<lceil>real_of_int D / real_of_int 16\<rceil> = - (- D div 16)"
    by (rule ceiling_divide_eq_div)
  then have "\<lceil>real_of_int D / 16\<rceil> = - (- D div 16)" by simp
  then show ?thesis
    by (simp add: digitalBytesLen_def zdiv_zminus1_eq_if)
qed

lemma read_h_Inr:
  "read_h data idx = Inr raw \<longleftrightarrow>
     (\<exists>lo hi. py_slice data idx (idx + 2) = [lo, hi] \<and> raw = sint (word_cat hi lo :: 16 word))"
  by (auto simp: read_h_def unpack_h_def split: list.splits)

lemma py_slice_nonneg:
  assumes "0 \<le> idx"
  shows "py_slice data idx (idx + 2) = [lo, hi] \<longleftrightarrow>
           nat idx + 2 \<le> length data \<and> lo = data ! nat idx \<and> hi = data ! (nat idx + 1)"
proof -
  let ?k = "nat idx"
  have sl: "py_slice data idx (idx + 2) = drop (min ?k (length data)) (take (min (?k + 2) (length data)) data)"
    using assms by (simp add: py_slice_def slice_bound_def nat_add_distrib)
  show ?thesis
  proof (cases "?k + 2 \<le> length data")
    case True
    then have "py_slice data idx (idx + 2) = drop ?k (take (?k + 2) data)"
      using sl by (simp add: min_def)
    also have "\<dots> = [data ! ?k, data ! (?k + 1)]"
      using True by (intro nth_equalityI) (auto simp: less_Suc_eq numeral_2_eq_2)
    finally show ?thesis using True by auto
  next
    case False
    then have "length (py_slice data idx (idx + 2)) < 2"
      unfolding sl by (auto simp: min_def)
    with False show ?thesis by auto
  qed
qed

lemma read_h_le_s16_at:
  "0 \<le> idx \<Longrightarrow> read_h data idx = Inr raw \<longleftrightarrow> le_s16_at data (nat idx) = Some raw"
  by (auto simp: read_h_Inr py_slice_nonneg le_s16_at_def)

lemma digital_bit_word:
  assumes "0 \<le> num" and "num < 16"
  shows "digital_bit num (sint (w :: 16 word)) = (if bit w (nat num) then 1 else 0)"
proof -
  have "nat num < 16" using assms by simp
  then have "bit (sint w) (nat num) = bit w (nat num)"
    by (simp add: bit_sint_iff)
  then show ?thesis
    by (simp add: digital_bit_def bit_iff_and_push_bit_not_eq_0)
qed

subsection \<open>What a completed decoding run has done\<close>

lemma ComtradeData_decode_Inr:
  assumes "ComtradeData_decode data path cfg = Inr d"
  obtains b c ais dis where
    "cfg_content cfg = Some c" and "0 < length (sampleInfo c)"
    and "s_rate (sampleInfo c ! 0) \<noteq> 0"
    and "for_each [0..<nat (sampleCount b)]
           (sample_step data (unitSize b) (ci_analog (channelInfo c)) (ci_digital (channelInfo c)))
           (analogInfo c, digitalInfo c) = Inr (ais, dis)"
    and "unitSize b = 4 + 4 + digitalBytesLen (ci_digital (channelInfo c)) + 2 * ci_analog (channelInfo c)"
    and "sampleCount b = s_end (sampleInfo c ! 0)"
    and "deltaT b = 1 / s_rate (sampleInfo c ! 0)"
    and "config b = cfg\<lparr>cfg_content := Some (c\<lparr>analogInfo := ais, digitalInfo := dis\<rparr>)\<rparr>"
    and "analog_map b = build_analog ais" and "digital_map b = build_digital dis"
    and "dat_result d = ''parsed''" and "dat_path d = path" and "dat_body d = Some b"
proof -
  from assms obtain c where c: "cfg_content cfg = Some c"
    by (auto simp: ComtradeData_decode_def content_of_def split: option.splits)
  let ?u = "4 + 4 + digitalBytesLen (ci_digital (channelInfo c)) + 2 * ci_analog (channelInfo c)"
  let ?s0 = "sampleInfo c ! 0"
  from assms c have len: "0 < length (sampleInfo c)"
    by (auto simp: ComtradeData_decode_def content_of_def Let_def index_list_def split: if_splits)
  from assms c len have rate: "s_rate ?s0 \<noteq> 0"
    by (auto simp: ComtradeData_decode_def content_of_def Let_def index_list_def split: if_splits)
  from assms c len rate obtain st where
    loop: "for_each (py_range (s_end ?s0))
             (sample_step data ?u (ci_analog (channelInfo c)) (ci_digital (channelInfo c)))
             (analogInfo c, digitalInfo c) = Inr st"
    and d: "d = (case st of (ais, dis) \<Rightarrow>
          \<lparr>dat_result = ''parsed'', dat_path = path,
          dat_body = Some \<lparr>unitSize = ?u, sampleCount = s_end ?s0,
                           deltaT = 1 / s_rate ?s0,
                           config = cfg\<lparr>cfg_content :=
                                      Some (c\<lparr>analogInfo := ais, digitalInfo := dis\<rparr>)\<rparr>,
                           analog_map = build_analog ais,
                           digital_map = build_digital dis\<rparr>\<rparr>)"
    by (auto simp: ComtradeData_decode_def content_of_def Let_def index_list_def bind_err_eq_Inr)
  obtain ais dis where st: "st = (ais, dis)" by (cases st)
  show thesis
    by (rule that [of c _ ais dis]) (use c len rate loop d st in \<open>simp_all add: py_range_def\<close>)
qed

lemma ComtradeData_init_body:
  assumes "ComtradeData_init fs cfg = Inr d" and "dat_body d = Some b"
  obtains data where
    "cfg_result cfg = ''parsed''" and "fs (dat_path_of (cfg_path cfg)) = Some data"
    and "ComtradeData_decode data (dat_path_of (cfg_path cfg)) cfg = Inr d"
  using assms
  by (auto simp: ComtradeData_init_def Let_def split: if_splits option.splits)

subsection \<open>What a completed configuration parse has built\<close>

lemma bind_err_InrE:
  assumes "bind_err m f = Inr y"
  obtains x where "m = Inr x" and "f x = Inr y"
  using assms by (auto simp: bind_err_eq_Inr)

lemma AnalogInfo_init_data: "AnalogInfo_init s = Inr x \<Longrightarrow> a_data x = []"
  unfolding AnalogInfo_init_def Let_def
  by (elim bind_err_InrE) auto

lemma DigitalInfo_init_data: "DigitalInfo_init s = Inr x \<Longrightarrow> d_data x = []"
  unfolding DigitalInfo_init_def Let_def
  by (elim bind_err_InrE) auto


lemma parse_lines_Inr:
  "parse_lines C ls idx n = Inr xs \<Longrightarrow>
     length xs = n \<and> (\<forall>x\<in>set xs. \<exists>l. C l = Inr x)"
proof (induction n arbitrary: idx xs)
  case 0
  then show ?case by simp
next
  case (Suc n)
  from Suc.prems obtain l x ys where "C l = Inr x"
    and "parse_lines C ls (Suc idx) n = Inr ys" and "xs = x # ys"
    by (auto simp: bind_err_eq_Inr)
  with Suc.IH [of "Suc idx" ys] show ?case by auto
qed

lemma ComtradeConfig_parse_Inr:
  assumes "ComtradeConfig_parse ls = Inr c"
  obtains "index_list ls 1 = Inr (ls ! 1)" and "ChannelInfo_init (ls ! 1) = Inr (channelInfo c)"
    and "parse_lines AnalogInfo_init ls 2 (nat (ci_analog (channelInfo c))) = Inr (analogInfo c)"
    and "parse_lines DigitalInfo_init ls (2 + nat (ci_analog (channelInfo c)))
           (nat (ci_digital (channelInfo c))) = Inr (digitalInfo c)"
  using assms unfolding ComtradeConfig_parse_def Let_def
  by (elim bind_err_InrE) (auto simp: index_list_eq_Inr)

lemma ComtradeConfig_parse_buffers:
  assumes "ComtradeConfig_parse ls = Inr c"
  shows "length (analogInfo c) = nat (ci_analog (channelInfo c))"
    and "length (digitalInfo c) = nat (ci_digital (channelInfo c))"
    and "\<forall>x\<in>set (analogInfo c). a_data x = []"
    and "\<forall>x\<in>set (digitalInfo c). d_data x = []"
proof -
  from assms have a: "parse_lines AnalogInfo_init ls 2 (nat (ci_analog (channelInfo c))) = Inr (analogInfo c)"
    and d: "parse_lines DigitalInfo_init ls (2 + nat (ci_analog (channelInfo c)))
           (nat (ci_digital (channelInfo c))) = Inr (digitalInfo c)"
    by (auto elim: ComtradeConfig_parse_Inr)
  from parse_lines_Inr [OF a] show "length (analogInfo c) = nat (ci_analog (channelInfo c))"
    and "\<forall>x\<in>set (analogInfo c). a_data x = []"
    by (auto dest: AnalogInfo_init_data)
  from parse_lines_Inr [OF d] show "length (digitalInfo c) = nat (ci_digital (channelInfo c))"
    and "\<forall>x\<in>set (digitalInfo c). d_data x = []"
    by (auto dest: DigitalInfo_init_data)
qed

lemma ComtradeConfig_init_cases:
  assumes "ComtradeConfig_init fs p = Inr cfg"
  obtains (missing) "fs p = None"
      and "cfg = \<lparr>cfg_path = p, cfg_result = ''no file'', cfg_content = None\<rparr>"
  | (parsed) bytes c where "fs p = Some bytes"
      and "ComtradeConfig_parse (ComtradeConfig_removeNextline (readlines (decode_text bytes))) = Inr c"
      and "cfg = \<lparr>cfg_path = p, cfg_result = ''parsed'', cfg_content = Some c\<rparr>"
  using assms by (auto simp: ComtradeConfig_init_def bind_err_eq_Inr split: option.splits)

subsection \<open>What a completed session holds\<close>

lemma ComtradeParser_init_session:
  assumes "ComtradeParser_init fs path = Inr p" and "p_session p = Some s"
  obtains c where "ComtradeConfig_init fs (p_path s @ ''.cfg'') = Inr (p_config s)"
    and "ComtradeData_init fs (p_config s) = Inr (p_dat s)"
    and "ComtradeData_analog (p_dat s) = Inr (p_analog s)"
    and "ComtradeData_digital (p_dat s) = Inr (p_digital s)"
    and "ComtradeData_t (p_dat s) = Inr (p_t s)"
    and "cfg_content (p_config s) = Some c" and "0 < length (sampleInfo c)"
    and "p_fs s = s_rate (sampleInfo c ! 0)" and "p_result p = ''parsed''"
    and "contains ''.cfg'' path \<or> contains ''.dat'' path"
proof -
  from assms have ok: "contains ''.cfg'' path \<or> contains ''.dat'' path"
    by (auto simp: ComtradeParser_init_def split: if_splits)
  let ?path = "if contains ''.cfg'' path then str_remove ''.cfg'' path else str_remove ''.dat'' path"
  from assms(1) ok obtain cfg dat an di t c s0
    where 1: "ComtradeConfig_init fs (?path @ ''.cfg'') = Inr cfg"
      and 2: "ComtradeData_init fs cfg = Inr dat"
      and 3: "ComtradeData_analog dat = Inr an"
      and 4: "ComtradeData_digital dat = Inr di"
      and 5: "ComtradeData_t dat = Inr t"
      and 6: "content_of cfg = Inr c"
      and 7: "index_list (sampleInfo c) 0 = Inr s0"
      and p: "p = \<lparr>p_result = ''parsed'',
             p_session = Some \<lparr>p_path = ?path, p_config = cfg, p_dat = dat, p_analog = an,
                                p_digital = di, p_t = t, p_fs = s_rate s0\<rparr>\<rparr>"
    unfolding ComtradeParser_init_def Let_def
    by (simp only: if_not_P de_Morgan_conj not_not ok if_False) (elim bind_err_InrE, auto)
  from p assms(2) have s: "s = \<lparr>p_path = ?path, p_config = cfg, p_dat = dat, p_analog = an,
                                p_digital = di, p_t = t, p_fs = s_rate s0\<rparr>"
    by simp
  from 6 have c: "cfg_content cfg = Some c"
    by (auto simp: content_of_def split: option.splits)
  show thesis
    by (rule that [of c]) (use 1 2 3 4 5 7 c s p ok in \<open>simp_all add: index_list_eq_Inr\<close>)
qed


lemma session_decoded:
  assumes init: "ComtradeParser_init fs path = Inr p" and sess: "p_session p = Some s"
    and body: "dat_body (p_dat s) = Some b" and cont: "cfg_content (config b) = Some c"
  obtains data c0 where "fs (dat_path (p_dat s)) = Some data"
    and "cfg_content (p_config s) = Some c0"
    and "channelInfo c = channelInfo c0"
    and "for_each [0..<nat (sampleCount b)]
           (sample_step data (unitSize b) (ci_analog (channelInfo c0)) (ci_digital (channelInfo c0)))
           (analogInfo c0, digitalInfo c0) = Inr (analogInfo c, digitalInfo c)"
    and "length (analogInfo c0) = nat (ci_analog (channelInfo c0))"
    and "length (digitalInfo c0) = nat (ci_digital (channelInfo c0))"
    and "\<forall>x\<in>set (analogInfo c0). a_data x = []"
    and "\<forall>x\<in>set (digitalInfo c0). d_data x = []"
proof -
  from init sess obtain c1 where cfg: "ComtradeConfig_init fs (p_path s @ ''.cfg'') = Inr (p_config s)"
    and dat: "ComtradeData_init fs (p_config s) = Inr (p_dat s)"
    and c1: "cfg_content (p_config s) = Some c1"
    by (rule ComtradeParser_init_session)
  from dat body obtain data
    where data: "fs (dat_path_of (cfg_path (p_config s))) = Some data"
      and dec: "ComtradeData_decode data (dat_path_of (cfg_path (p_config s))) (p_config s) = Inr (p_dat s)"
    by (rule ComtradeData_init_body)
  from dec obtain b' c0 ais dis where c0: "cfg_content (p_config s) = Some c0"
    and loop: "for_each [0..<nat (sampleCount b')]
           (sample_step data (unitSize b') (ci_analog (channelInfo c0)) (ci_digital (channelInfo c0)))
           (analogInfo c0, digitalInfo c0) = Inr (ais, dis)"
    and conf: "config b' = (p_config s)\<lparr>cfg_content := Some (c0\<lparr>analogInfo := ais, digitalInfo := dis\<rparr>)\<rparr>"
    and path: "dat_path (p_dat s) = dat_path_of (cfg_path (p_config s))"
    and b': "dat_body (p_dat s) = Some b'"
    by (rule ComtradeData_decode_Inr)
  from b' body have bb: "b' = b" by simp
  from conf cont bb have c: "c = c0\<lparr>analogInfo := ais, digitalInfo := dis\<rparr>" by simp
  from cfg c0 obtain bytes
    where "ComtradeConfig_parse (ComtradeConfig_removeNextline (readlines (decode_text bytes))) = Inr c0"
    by (cases rule: ComtradeConfig_init_cases) auto
  note buf = ComtradeConfig_parse_buffers [OF this]
  show thesis
    by (rule that [of data c0]) (use data path c0 c loop bb buf in simp_all)
qed

subsection \<open>The time vector and the accessors\<close>

lemma linspace_spacing:
  assumes "linspace 0 stop n = Inr ts" and "2 \<le> n" and "Suc k < nat n"
  shows "length ts = nat n \<and> ts ! 0 = 0 \<and> ts ! Suc k - ts ! k = stop / real_of_int (n - 1)"
proof -
  let ?m = "nat n"
  let ?y = "map (\<lambda>i. real i * (stop / real (?m - 1)) + 0) [0..<?m]"
  from assms(1,2) have ts: "ts = ?y[?m - 1 := stop]"
    by (auto simp: linspace_def Let_def split: if_splits)
  have m: "real (?m - 1) = real_of_int (n - 1)" using assms(2) by (simp add: of_nat_diff)
  have pos: "real (?m - 1) \<noteq> 0" using assms(2) by simp
  have nth: "ts ! j = real j * (stop / real (?m - 1))" if "j < ?m" for j
  proof (cases "j = ?m - 1")
    case True
    then show ?thesis using that pos by (simp add: ts)
  next
    case False
    then show ?thesis using that by (simp add: ts)
  qed
  have "ts ! Suc k - ts ! k = stop / real (?m - 1)"
    using nth [of "Suc k"] nth [of k] assms(3) by (simp add: algebra_simps add_divide_distrib)
  moreover have "ts ! 0 = 0" using nth [of 0] assms(3) by simp
  moreover have "length ts = ?m" by (simp add: ts)
  ultimately show ?thesis using m by simp
qed

lemma time_vector_spacing:
  assumes "ComtradeData_init fs cfg = Inr d" and "dat_body d = Some b"
    and "2 \<le> sampleCount b" and "Suc k < nat (sampleCount b)"
  shows "\<exists>ts. ComtradeData_t d = Inr ts \<and> length ts = nat (sampleCount b) \<and> ts ! 0 = 0 \<and>
           ts ! Suc k - ts ! k =
             deltaT b * (real_of_int (sampleCount b) / real_of_int (sampleCount b - 1))"
proof -
  from assms(1,2) obtain data
    where dec: "ComtradeData_decode data (dat_path_of (cfg_path cfg)) cfg = Inr d"
    by (rule ComtradeData_init_body)
  then have res: "dat_result d = ''parsed''"
    by (rule ComtradeData_decode_Inr)
  from assms(3) obtain ts where ts: "linspace 0 (deltaT b * real_of_int (sampleCount b)) (sampleCount b) = Inr ts"
    by (auto simp: linspace_def Let_def)
  from linspace_spacing [OF ts assms(3,4)] ts res assms(2) show ?thesis
    by (simp add: ComtradeData_t_def body_of_def)
qed

lemma no_body_accessors:
  assumes "dat_result d \<noteq> ''parsed''"
  shows "ComtradeData_analog d = Inr Map.empty" and "ComtradeData_digital d = Inr Map.empty"
    and "ComtradeData_t d = Inr []"
  using assms by (simp_all add: ComtradeData_analog_def ComtradeData_digital_def ComtradeData_t_def)

lemma decode_with_dataFormat:
  "map_sum id outputs (ComtradeData_decode data path (with_dataFormat tok cfg)) =
   map_sum id outputs (ComtradeData_decode data path cfg)"
proof (cases "cfg_content cfg")
  case None
  then show ?thesis
    by (simp add: with_dataFormat_def ComtradeData_decode_def content_of_def)
next
  case (Some c)
  then show ?thesis
    by (simp add: with_dataFormat_def ComtradeData_decode_def content_of_def
          Let_def bind_err_def outputs_def ComtradeData_t_def ComtradeData_analog_def
          ComtradeData_digital_def body_of_def
          split: sum.splits prod.splits)
qed

lemma ComtradeData_init_path:
  assumes "ComtradeData_init fs cfg = Inr d"
  shows "dat_path d = dat_path_of (cfg_path cfg)"
proof (cases "cfg_result cfg = ''parsed''")
  case False
  with assms have "d = \<lparr>dat_result = ''none'', dat_path = dat_path_of (cfg_path cfg), dat_body = None\<rparr>"
    by (simp add: ComtradeData_init_def)
  then show ?thesis by simp
next
  case True
  show ?thesis
  proof (cases "fs (dat_path_of (cfg_path cfg))")
    case None
    with True assms
    have "d = \<lparr>dat_result = ''no file'', dat_path = dat_path_of (cfg_path cfg), dat_body = None\<rparr>"
      by (simp add: ComtradeData_init_def)
    then show ?thesis by simp
  next
    case (Some data)
    with True assms have "ComtradeData_decode data (dat_path_of (cfg_path cfg)) cfg = Inr d"
      by (simp add: ComtradeData_init_def)
    then show ?thesis by (rule ComtradeData_decode_Inr)
  qed
qed


lemma ComtradeParser_init_has_session:
  assumes "ComtradeParser_init fs path = Inr p"
    and ok: "contains ''.cfg'' path \<or> contains ''.dat'' path"
  shows "\<exists>s. p_session p = Some s"
proof -
  from assms(1) ok obtain s where "p = \<lparr>p_result = ''parsed'', p_session = Some s\<rparr>"
    unfolding ComtradeParser_init_def Let_def
    by (simp only: if_not_P de_Morgan_conj not_not ok if_False) (elim bind_err_InrE, auto)
  then show ?thesis by simp
qed

lemma ComtradeConfig_init_result:
  assumes "ComtradeConfig_init fs p = Inr cfg" and "cfg_content cfg = Some c"
  shows "cfg_result cfg = ''parsed''"
  using assms by (cases rule: ComtradeConfig_init_cases) simp_all

lemma ComtradeData_init_no_file:
  assumes "ComtradeData_init fs cfg = Inr d" and "cfg_result cfg = ''parsed''"
    and "fs (dat_path d) = None"
  shows "dat_result d = ''no file''"
proof -
  from assms(1) have "dat_path d = dat_path_of (cfg_path cfg)"
    by (rule ComtradeData_init_path)
  with assms have "d = \<lparr>dat_result = ''no file'',
        dat_path = dat_path_of (cfg_path cfg), dat_body = None\<rparr>"
    by (simp add: ComtradeData_init_def)
  then show ?thesis by simp
qed

subsection \<open>The worked recording, evaluated\<close>

lemmas py_defs = py_int_def py_float_def strip_def is_space_def split_sign_def digitpart_def
  digits_value_def is_digit_def digit_val_def split_first_def opt_digits_def index_list_def
  split_fields_def Let_def

lemmas init_defs = FileInfo_init_def ChannelInfo_init_def AnalogInfo_init_def
  DigitalInfo_init_def SampleInfo_init_def TimeStamp_init_def

lemma lower_BINARY: "lower ''BINARY'' = ''binary''"
  by (simp add: lower_def lower_char_def char_of_def bit_Suc_0_iff)

lemma scenario_parse: "ComtradeConfig_parse scenario_lines = Inr scenario_parsed"
  by (simp add: ComtradeConfig_parse_def scenario_lines_def scenario_parsed_def
        scenario_content_def scenario_analog_def scenario_digital_def init_defs py_defs
        lower_BINARY numeral_2_eq_2)

lemma char_of_unat_of_char: "char_of (unat (of_char c :: 8 word)) = c"
proof -
  have "(of_char c :: 8 word) = of_nat (of_char c)"
    by (simp only: of_nat_of_char)
  then have "unat (of_char c :: 8 word) = (of_char c :: nat) mod 2 ^ 8"
    by (simp add: unat_of_nat)
  also have "\<dots> = of_char c" by simp
  finally show ?thesis by simp
qed

lemma decode_text_encode_text: "decode_text (encode_text s) = universal_newlines s"
  by (simp add: decode_text_def encode_text_def o_def char_of_unat_of_char)

lemma scenario_readlines:
  "ComtradeConfig_removeNextline (readlines (decode_text scenario_cfg)) = scenario_lines"
  by (simp add: scenario_cfg_def decode_text_encode_text scenario_lines_def
        ComtradeConfig_removeNextline_def)

lemma scenario_config_init: "ComtradeConfig_init scenario_fs ''rec.cfg'' = Inr scenario_config"
  by (simp add: ComtradeConfig_init_def scenario_fs_def scenario_readlines scenario_parse
        scenario_config_def)


lemma scenario_reads:
  "read_h scenario_dat 8 = Inr 2" "read_h scenario_dat 10 = Inr (- 1)" "read_h scenario_dat 12 = Inr 2"
  "read_h scenario_dat 22 = Inr 4" "read_h scenario_dat 24 = Inr (- 2)" "read_h scenario_dat 26 = Inr 0"
  "read_h scenario_dat 36 = Inr 256" "read_h scenario_dat 38 = Inr (- 32768)"
  "read_h scenario_dat 40 = Inr (- 1)"
  by code_simp+

lemma scenario_bits:
  "digital_bit 1 2 = 1" "digital_bit 1 0 = 0" "digital_bit 1 (- 1) = 1"
  by (simp_all add: digital_bit_def)

lemma dat_path_of_rec: "dat_path_of ''rec.cfg'' = ''rec.dat''"
  by (simp add: dat_path_of_def)

lemma scenario_data_init: "ComtradeData_init scenario_fs scenario_config = Inr scenario_data"
  by (simp add: ComtradeData_init_def ComtradeData_decode_def dat_path_of_rec scenario_config_def
        scenario_fs_def content_of_def scenario_parsed_def scenario_content_def index_list_def
        digitalBytesLen_def py_range_def upt_conv_Cons sample_step_def analog_step_def
        digital_step_def scenario_reads scenario_bits scenario_analog_def scenario_digital_def
        AnalogInfo_appendData_def DigitalInfo_appendData_def scenario_data_def scenario_body_def
        scenario_decoded_def)

lemma scenario_t: "ComtradeData_t scenario_data = Inr [0, 3 / 2000, 3 / 1000]"
  by (simp add: ComtradeData_t_def scenario_data_def body_of_def scenario_body_def linspace_def
        upt_conv_Cons)

lemma scenario_parser_init: "ComtradeParser_init scenario_fs ''rec.cfg'' = Inr scenario_parser"
proof -
  have a: "ComtradeData_analog scenario_data = Inr (build_analog (analogInfo scenario_decoded))"
    by (simp add: ComtradeData_analog_def scenario_data_def body_of_def scenario_body_def)
  have d: "ComtradeData_digital scenario_data = Inr (build_digital (digitalInfo scenario_decoded))"
    by (simp add: ComtradeData_digital_def scenario_data_def body_of_def scenario_body_def)
  have c: "content_of scenario_config = Inr scenario_parsed"
    by (simp add: content_of_def scenario_config_def)
  have s: "index_list (sampleInfo scenario_parsed) 0 = Inr \<lparr>s_rate = 1000, s_end = 3\<rparr>"
    by (simp add: index_list_def scenario_parsed_def scenario_content_def)
  show ?thesis
    by (simp add: ComtradeParser_init_def scenario_config_init scenario_data_init scenario_t
          a d c s scenario_parser_def scenario_session_def)
qed

lemma scenario_words:
  "le_s16_at scenario_dat 38 = Some (- 32768)" "le_s16_at scenario_dat 40 = Some (- 1)"
  by code_simp+

lemma cfg_only_config_init: "ComtradeConfig_init cfg_only_fs ''rec.cfg'' = Inr scenario_config"
  by (simp add: ComtradeConfig_init_def cfg_only_fs_def scenario_readlines scenario_parse
        scenario_config_def)

lemma cfg_only_data_init:
  "ComtradeData_init cfg_only_fs scenario_config =
     Inr \<lparr>dat_result = ''no file'', dat_path = ''rec.dat'', dat_body = None\<rparr>"
  by (simp add: ComtradeData_init_def scenario_config_def dat_path_of_rec cfg_only_fs_def)

lemma cfg_only_parser_init: "ComtradeParser_init cfg_only_fs ''rec.cfg'' = Inr cfg_only_parser"
proof -
  have c: "content_of scenario_config = Inr scenario_parsed"
    by (simp add: content_of_def scenario_config_def)
  have s: "index_list (sampleInfo scenario_parsed) 0 = Inr \<lparr>s_rate = 1000, s_end = 3\<rparr>"
    by (simp add: index_list_def scenario_parsed_def scenario_content_def)
  show ?thesis
    by (simp add: ComtradeParser_init_def cfg_only_config_init cfg_only_data_init
          no_body_accessors c s cfg_only_parser_def cfg_only_session_def)
qed

subsection \<open>The decoder without a data file\<close>

lemma ComtradeData_init_without_file:
  "(cfg_result cfg = ''parsed'' \<and> fs (dat_path_of (cfg_path cfg)) = None \<longrightarrow>
      (\<exists>d ts. ComtradeData_init fs cfg = Inr d \<and> dat_result d = ''no file'' \<and>
         ComtradeData_analog d = Inr Map.empty \<and> ComtradeData_digital d = Inr Map.empty \<and>
         ComtradeData_t d = Inr ts \<and> length ts = 0)) \<and>
   (cfg_result cfg \<noteq> ''parsed'' \<longrightarrow>
      (\<exists>d ts. ComtradeData_init fs cfg = Inr d \<and> dat_result d = ''none'' \<and>
         ComtradeData_analog d = Inr Map.empty \<and> ComtradeData_digital d = Inr Map.empty \<and>
         ComtradeData_t d = Inr ts \<and> length ts = 0))"
proof (intro conjI impI)
  assume "cfg_result cfg = ''parsed'' \<and> fs (dat_path_of (cfg_path cfg)) = None"
  then have "ComtradeData_init fs cfg =
      Inr \<lparr>dat_result = ''no file'', dat_path = dat_path_of (cfg_path cfg), dat_body = None\<rparr>"
    by (simp add: ComtradeData_init_def)
  then show "\<exists>d ts. ComtradeData_init fs cfg = Inr d \<and> dat_result d = ''no file'' \<and>
         ComtradeData_analog d = Inr Map.empty \<and> ComtradeData_digital d = Inr Map.empty \<and>
         ComtradeData_t d = Inr ts \<and> length ts = 0"
    by (simp add: no_body_accessors)
next
  assume "cfg_result cfg \<noteq> ''parsed''"
  then have "ComtradeData_init fs cfg =
      Inr \<lparr>dat_result = ''none'', dat_path = dat_path_of (cfg_path cfg), dat_body = None\<rparr>"
    by (simp add: ComtradeData_init_def)
  then show "\<exists>d ts. ComtradeData_init fs cfg = Inr d \<and> dat_result d = ''none'' \<and>
         ComtradeData_analog d = Inr Map.empty \<and> ComtradeData_digital d = Inr Map.empty \<and>
         ComtradeData_t d = Inr ts \<and> length ts = 0"
    by (simp add: no_body_accessors)
qed

lemma guard_rejects_path:
  assumes "\<not> contains ''.cfg'' path" and "\<not> contains ''.dat'' path"
  shows "ComtradeParser_init fs path =
           Inr \<lparr>p_result = ''not a comtrade file: '' @ path, p_session = None\<rparr>"
  using assms by (simp add: ComtradeParser_init_def)

text \<open>
  With the configuration file missing, the session constructor runs both stages and
  then reads \<^verbatim>\<open>self.config.sampleInfo\<close>, an attribute the configuration does not have.
\<close>

lemma ComtradeParser_init_missing_cfg:
  assumes "contains ''.cfg'' path" and "fs (str_remove ''.cfg'' path @ ''.cfg'') = None"
  shows "ComtradeParser_init fs path = Inl AttributeError"
proof -
  let ?cfg = "\<lparr>cfg_path = str_remove ''.cfg'' path @ ''.cfg'', cfg_result = ''no file'',
               cfg_content = None\<rparr>"
  let ?dat = "\<lparr>dat_result = ''none'', dat_path = dat_path_of (cfg_path ?cfg), dat_body = None\<rparr>"
  have c: "ComtradeConfig_init fs (str_remove ''.cfg'' path @ ''.cfg'') = Inr ?cfg"
    using assms(2) by (simp add: ComtradeConfig_init_def)
  have d: "ComtradeData_init fs ?cfg = Inr ?dat"
    by (simp add: ComtradeData_init_def)
  have n: "dat_result ?dat \<noteq> ''parsed''" by simp
  have k: "content_of ?cfg = Inl AttributeError"
    by (simp add: content_of_def)
  show ?thesis
    unfolding ComtradeParser_init_def Let_def
    by (simp only: assms(1) simp_thms if_False if_True c d bind_err_Inr bind_err_Inl
        no_body_accessors [OF n] k)
qed

subsection \<open>The exceptions of the configuration parser\<close>























subsection \<open>The other recordings, evaluated\<close>

lemma neg_parse: "ComtradeConfig_parse neg_lines = Inr (neg_content [[], [], [], [], [], []])"
  by (simp add: ComtradeConfig_parse_def neg_lines_def neg_content_def neg_digital_def
        neg_channel_def scenario_content_def init_defs py_defs lower_BINARY eval_nat_numeral)

lemma neg_reads: "read_h neg_dat (- 4) = Inr 2" "le_s16_at neg_dat 4 = Some 2"
  by code_simp+

lemma neg_bits:
  "digital_bit 1 2 = 1" "digital_bit 2 2 = 0" "digital_bit 3 2 = 0" "digital_bit 4 2 = 0"
  "digital_bit 5 2 = 0" "digital_bit 6 2 = 0"
  by (simp_all add: digital_bit_def)

lemma dat_path_of_neg: "dat_path_of ''neg.cfg'' = ''neg.dat''"
  by (simp add: dat_path_of_def)

lemma neg_data_init:
  "ComtradeData_init neg_fs neg_config =
     Inr \<lparr>dat_result = ''parsed'', dat_path = ''neg.dat'', dat_body = Some neg_body\<rparr>"
  by (simp add: ComtradeData_init_def ComtradeData_decode_def dat_path_of_neg neg_config_def
        neg_fs_def content_of_def neg_content_def scenario_content_def index_list_def
        digitalBytesLen_def py_range_def upt_conv_Cons sample_step_def
        digital_step_def neg_reads neg_bits neg_digital_def neg_channel_def
        DigitalInfo_appendData_def neg_body_def)

lemma stray_config_init: "ComtradeConfig_init stray_fs ''a.b.cfg'' = Inr stray_config"
  by (simp add: ComtradeConfig_init_def stray_fs_def scenario_readlines scenario_parse
        stray_config_def)

lemma dat_path_of_stray: "dat_path_of ''a.b.cfg'' = ''a.dat''" "dat_path_of ''./rec.cfg'' = ''.dat''"
  by (simp_all add: dat_path_of_def)

lemma stray_data_init:
  "ComtradeData_init stray_fs stray_config =
     Inr \<lparr>dat_result = ''parsed'', dat_path = ''a.dat'',
          dat_body = Some (scenario_body\<lparr>config := stray_config\<lparr>cfg_content := Some scenario_decoded\<rparr>\<rparr>)\<rparr>"
  by (simp add: ComtradeData_init_def ComtradeData_decode_def dat_path_of_stray stray_config_def
        stray_fs_def content_of_def scenario_parsed_def scenario_content_def index_list_def
        digitalBytesLen_def py_range_def upt_conv_Cons sample_step_def analog_step_def
        digital_step_def scenario_reads scenario_bits scenario_analog_def scenario_digital_def
        AnalogInfo_appendData_def DigitalInfo_appendData_def scenario_body_def
        scenario_decoded_def)

lemma scenario_analog_map:
  "build_analog (analogInfo scenario_decoded) ''UA(V)'' = Some [2, 3, 129]"
  by (simp add: build_analog_def analog_key_def scenario_decoded_def scenario_content_def
        scenario_analog_def)







section \<open>The claims\<close>

text \<open>
  C1 (fails on the code). The claim: the time vector of a decoded session has
  \<open>sampleCount\<close> entries spaced \<open>1 / rate\<close>, so \<open>[0, 0.001, 0.002]\<close> for rate 1000 and
  end 3. The code returns \<^verbatim>\<open>np.linspace(0.0, deltaT * sampleCount, sampleCount)\<close>, whose
  end point is included: on the scenario of the specification the session's time
  vector is \<open>[0, 0.0015, 0.003]\<close>. (In general the spacing is
  \<open>deltaT * sampleCount / (sampleCount - 1)\<close>, lemma \<open>time_vector_spacing\<close>.)
\<close>

theorem C1_scenario_time_vector:
  "map_sum id (\<lambda>p. map_option p_t (p_session p)) (ComtradeParser_init scenario_fs ''rec.cfg'')
     = Inr (Some [0, 3 / 2000, 3 / 1000]) \<and>
   [0, 3 / 2000, 3 / 1000] \<noteq> [0, 1 / 1000, 2 / 1000 :: real]"
  by (simp add: scenario_parser_init scenario_parser_def scenario_session_def)

text \<open>
  C2. In a completed session, for every analog channel descriptor and every sample
  index \<open>i\<close> below the sample count, the value at position \<open>i\<close> of the descriptor's
  buffer is \<open>raw * a + b\<close>, where \<open>a\<close> and \<open>b\<close> are the descriptor's calibration
  constants and \<open>raw\<close> is the signed 16-bit integer which the decoder read for that
  channel and sample from the binary file; the buffer holds one value per sample.
\<close>

theorem C2_analog_value_is_raw_times_a_plus_b:
  assumes "ComtradeParser_init fs path = Inr p" and "p_session p = Some s"
    and "dat_body (p_dat s) = Some b" and "cfg_content (config b) = Some c"
    and "ch < length (analogInfo c)" and "i < nat (sampleCount b)"
  shows "\<exists>data raw.
           fs (dat_path (p_dat s)) = Some data \<and>
           read_h data (int ch * 2 + (int i * unitSize b + 8)) = Inr raw \<and>
           - 32768 \<le> raw \<and> raw < 32768 \<and>
           length (a_data (analogInfo c ! ch)) = nat (sampleCount b) \<and>
           a_data (analogInfo c ! ch) ! i =
             real_of_int raw * a_a (analogInfo c ! ch) + a_b (analogInfo c ! ch)"
proof -
  from assms(1-4) obtain data c0 where data: "fs (dat_path (p_dat s)) = Some data"
    and "cfg_content (p_config s) = Some c0"
    and "channelInfo c = channelInfo c0"
    and loop: "for_each [0..<nat (sampleCount b)]
           (sample_step data (unitSize b) (ci_analog (channelInfo c0)) (ci_digital (channelInfo c0)))
           (analogInfo c0, digitalInfo c0) = Inr (analogInfo c, digitalInfo c)"
    and len0: "length (analogInfo c0) = nat (ci_analog (channelInfo c0))"
    and "length (digitalInfo c0) = nat (ci_digital (channelInfo c0))"
    and empty: "\<forall>x\<in>set (analogInfo c0). a_data x = []"
    and "\<forall>x\<in>set (digitalInfo c0). d_data x = []"
    by (rule session_decoded)
  note sl = sample_loop_analog [OF loop]
  from sl len0 assms(5) have ch: "ch < nat (ci_analog (channelInfo c0))" and ch0: "ch < length (analogInfo c0)"
    by simp_all
  with sl obtain vals where v1: "length vals = nat (sampleCount b)"
    and v2: "analogInfo c ! ch = (analogInfo c0 ! ch)\<lparr>a_data := a_data (analogInfo c0 ! ch) @ vals\<rparr>"
    and v3: "\<forall>i<nat (sampleCount b). \<exists>raw. read_h data (int ch * 2 + (int i * unitSize b + 8)) = Inr raw \<and>
                 vals ! i = real_of_int raw * a_a (analogInfo c0 ! ch) + a_b (analogInfo c0 ! ch)"
    by blast
  from empty ch0 have e: "a_data (analogInfo c0 ! ch) = []" by simp
  from v3 assms(6) obtain raw where r1: "read_h data (int ch * 2 + (int i * unitSize b + 8)) = Inr raw"
    and r2: "vals ! i = real_of_int raw * a_a (analogInfo c0 ! ch) + a_b (analogInfo c0 ! ch)"
    by blast
  from r1 obtain w :: "16 word" where "raw = sint w"
    by (auto simp: read_h_Inr)
  then have range: "- 32768 \<le> raw \<and> raw < 32768"
    using sint_ge [of w] sint_lt [of w] by simp
  from v2 e have "a_data (analogInfo c ! ch) = vals"
    and "a_a (analogInfo c ! ch) = a_a (analogInfo c0 ! ch)"
    and "a_b (analogInfo c ! ch) = a_b (analogInfo c0 ! ch)"
    by simp_all
  with data r1 r2 v1 range show ?thesis by auto
qed

theorem C2_witness:
  "ComtradeParser_init scenario_fs ''rec.cfg'' = Inr scenario_parser \<and>
   p_session scenario_parser = Some scenario_session \<and>
   dat_body (p_dat scenario_session) = Some scenario_body \<and>
   cfg_content (config scenario_body) = Some scenario_decoded \<and>
   (1 :: nat) < length (analogInfo scenario_decoded) \<and>
   (2 :: nat) < nat (sampleCount scenario_body) \<and>
   read_h scenario_dat 38 = Inr (- 32768) \<and>
   a_data (analogInfo scenario_decoded ! 1) ! 2 = real_of_int (- 32768) * 2 + (- 1)"
proof -
  have h1: "ComtradeParser_init scenario_fs ''rec.cfg'' = Inr scenario_parser"
    by (rule scenario_parser_init)
  have h2: "p_session scenario_parser = Some scenario_session"
    by (simp add: scenario_parser_def)
  have h3: "dat_body (p_dat scenario_session) = Some scenario_body"
    by (simp add: scenario_session_def scenario_data_def)
  have h4: "cfg_content (config scenario_body) = Some scenario_decoded"
    by (simp add: scenario_body_def)
  have h5: "(1 :: nat) < length (analogInfo scenario_decoded)"
    by (simp add: scenario_decoded_def scenario_content_def scenario_analog_def)
  have h6: "(2 :: nat) < nat (sampleCount scenario_body)"
    by (simp add: scenario_body_def)
  from C2_analog_value_is_raw_times_a_plus_b [OF h1 h2 h3 h4 h5 h6]
  obtain data raw where d: "scenario_fs (dat_path (p_dat scenario_session)) = Some data"
    and r: "read_h data (int 1 * 2 + (int 2 * unitSize scenario_body + 8)) = Inr raw"
    and v: "a_data (analogInfo scenario_decoded ! 1) ! 2 =
              real_of_int raw * a_a (analogInfo scenario_decoded ! 1) + a_b (analogInfo scenario_decoded ! 1)"
    by blast
  from d have "data = scenario_dat"
    by (simp add: scenario_session_def scenario_data_def scenario_fs_def)
  with r have "raw = - 32768"
    by (simp add: scenario_body_def scenario_reads)
  with v have "a_data (analogInfo scenario_decoded ! 1) ! 2 = real_of_int (- 32768) * 2 + (- 1)"
    by (simp add: scenario_decoded_def scenario_content_def scenario_analog_def)
  with h1 h2 h3 h4 h5 h6 show ?thesis
    by (simp add: scenario_reads)
qed

text \<open>
  C3. In a completed session, for every digital channel descriptor whose declared
  index is below 16 and every sample, the decoder's slice of the binary file at the
  word covering the channel is a pair of bytes \<open>[lo, hi]\<close>, and the decoded value is 1
  if bit \<open>index\<close> of the 16-bit word with low byte \<open>lo\<close> and high byte \<open>hi\<close> is set and 0
  otherwise; it is always 0 or 1. (A run that completes has a declared index that is
  not negative: the shift by a negative index raises.)
\<close>

theorem C3_digital_value_is_bit_of_word:
  assumes "ComtradeParser_init fs path = Inr p" and "p_session p = Some s"
    and "dat_body (p_dat s) = Some b" and "cfg_content (config b) = Some c"
    and "ch < length (digitalInfo c)" and "d_num (digitalInfo c ! ch) < 16"
    and "i < nat (sampleCount b)"
  shows "\<exists>data lo hi.
           fs (dat_path (p_dat s)) = Some data \<and>
           py_slice data
             ((int ch div 16) * 2 + (int i * unitSize b + 8 + 2 * ci_analog (channelInfo c)))
             ((int ch div 16) * 2 + (int i * unitSize b + 8 + 2 * ci_analog (channelInfo c)) + 2)
             = [lo, hi] \<and>
           0 \<le> d_num (digitalInfo c ! ch) \<and>
           length (d_data (digitalInfo c ! ch)) = nat (sampleCount b) \<and>
           d_data (digitalInfo c ! ch) ! i =
             (if bit (word_cat hi lo :: 16 word) (nat (d_num (digitalInfo c ! ch))) then 1 else 0) \<and>
           d_data (digitalInfo c ! ch) ! i \<in> {0, 1}"
proof -
  from assms(1-4) obtain data c0 where data: "fs (dat_path (p_dat s)) = Some data"
    and "cfg_content (p_config s) = Some c0"
    and chan: "channelInfo c = channelInfo c0"
    and loop: "for_each [0..<nat (sampleCount b)]
           (sample_step data (unitSize b) (ci_analog (channelInfo c0)) (ci_digital (channelInfo c0)))
           (analogInfo c0, digitalInfo c0) = Inr (analogInfo c, digitalInfo c)"
    and "length (analogInfo c0) = nat (ci_analog (channelInfo c0))"
    and len0: "length (digitalInfo c0) = nat (ci_digital (channelInfo c0))"
    and "\<forall>x\<in>set (analogInfo c0). a_data x = []"
    and empty: "\<forall>x\<in>set (digitalInfo c0). d_data x = []"
    by (rule session_decoded)
  let ?idx = "(int ch div 16) * 2 + (int i * unitSize b + 8 + 2 * ci_analog (channelInfo c0))"
  let ?num = "d_num (digitalInfo c0 ! ch)"
  note sl = sample_loop_digital [OF loop]
  from sl len0 assms(5) have ch: "ch < nat (ci_digital (channelInfo c0))"
    and ch0: "ch < length (digitalInfo c0)"
    by simp_all
  with sl obtain vals where v1: "length vals = nat (sampleCount b)"
    and v2: "digitalInfo c ! ch = (digitalInfo c0 ! ch)\<lparr>d_data := d_data (digitalInfo c0 ! ch) @ vals\<rparr>"
    and v3: "\<forall>i<nat (sampleCount b). 0 \<le> ?num \<and>
           (\<exists>raw. read_h data ((int ch div 16) * 2 + (int i * unitSize b + 8 + 2 * ci_analog (channelInfo c0))) = Inr raw \<and>
                 vals ! i = digital_bit ?num raw)"
    by blast
  from empty ch0 have e: "d_data (digitalInfo c0 ! ch) = []" by simp
  from v2 e have buf: "d_data (digitalInfo c ! ch) = vals"
    and num: "d_num (digitalInfo c ! ch) = ?num"
    by simp_all
  from v3 assms(7) obtain raw where nonneg: "0 \<le> ?num"
    and r1: "read_h data ?idx = Inr raw" and r2: "vals ! i = digital_bit ?num raw"
    by blast
  from r1 obtain lo hi where sl: "py_slice data ?idx (?idx + 2) = [lo, hi]"
    and raw: "raw = sint (word_cat hi lo :: 16 word)"
    by (auto simp: read_h_Inr)
  from assms(6) num have "?num < 16" by simp
  with nonneg r2 raw
  have val: "vals ! i = (if bit (word_cat hi lo :: 16 word) (nat ?num) then 1 else 0)"
    by (simp add: digital_bit_word)
  from data sl nonneg v1 val buf num chan show ?thesis
    by auto
qed

theorem C3_witness:
  "ComtradeParser_init scenario_fs ''rec.cfg'' = Inr scenario_parser \<and>
   p_session scenario_parser = Some scenario_session \<and>
   dat_body (p_dat scenario_session) = Some scenario_body \<and>
   cfg_content (config scenario_body) = Some scenario_decoded \<and>
   (0 :: nat) < length (digitalInfo scenario_decoded) \<and>
   d_num (digitalInfo scenario_decoded ! 0) < 16 \<and>
   (2 :: nat) < nat (sampleCount scenario_body) \<and>
   py_slice scenario_dat 40 42 = [0xFF, 0xFF] \<and>
   d_data (digitalInfo scenario_decoded ! 0) ! 2 =
     (if bit (word_cat (0xFF :: 8 word) (0xFF :: 8 word) :: 16 word) (nat 1) then 1 else 0)"
proof -
  have h1: "ComtradeParser_init scenario_fs ''rec.cfg'' = Inr scenario_parser"
    by (rule scenario_parser_init)
  have h2: "p_session scenario_parser = Some scenario_session"
    by (simp add: scenario_parser_def)
  have h3: "dat_body (p_dat scenario_session) = Some scenario_body"
    by (simp add: scenario_session_def scenario_data_def)
  have h4: "cfg_content (config scenario_body) = Some scenario_decoded"
    by (simp add: scenario_body_def)
  have h5: "(0 :: nat) < length (digitalInfo scenario_decoded)"
    by (simp add: scenario_decoded_def scenario_content_def scenario_digital_def)
  have h6: "d_num (digitalInfo scenario_decoded ! 0) < 16"
    by (simp add: scenario_decoded_def scenario_content_def scenario_digital_def)
  have h7: "(2 :: nat) < nat (sampleCount scenario_body)"
    by (simp add: scenario_body_def)
  have sl: "py_slice scenario_dat 40 42 = [0xFF, 0xFF]"
    by (simp add: py_slice_def slice_bound_def scenario_dat_def)
  from C3_digital_value_is_bit_of_word [OF h1 h2 h3 h4 h5 h6 h7]
  obtain data lo hi where d: "scenario_fs (dat_path (p_dat scenario_session)) = Some data"
    and s: "py_slice data
             ((int 0 div 16) * 2 + (int 2 * unitSize scenario_body + 8 + 2 * ci_analog (channelInfo scenario_decoded)))
             ((int 0 div 16) * 2 + (int 2 * unitSize scenario_body + 8 + 2 * ci_analog (channelInfo scenario_decoded)) + 2)
             = [lo, hi]"
    and v: "d_data (digitalInfo scenario_decoded ! 0) ! 2 =
             (if bit (word_cat hi lo :: 16 word) (nat (d_num (digitalInfo scenario_decoded ! 0))) then 1 else 0)"
    by blast
  from d have "data = scenario_dat"
    by (simp add: scenario_session_def scenario_data_def scenario_fs_def)
  with s have "py_slice scenario_dat 40 42 = [lo, hi]"
    by (simp add: scenario_body_def scenario_decoded_def scenario_content_def)
  with sl have "lo = 0xFF" and "hi = 0xFF" by simp_all
  with v have "d_data (digitalInfo scenario_decoded ! 0) ! 2 =
     (if bit (word_cat (0xFF :: 8 word) (0xFF :: 8 word) :: 16 word) (nat 1) then 1 else 0)"
    by (simp add: scenario_decoded_def scenario_content_def scenario_digital_def)
  with h1 h2 h3 h4 h5 h6 h7 sl show ?thesis
    by blast
qed

text \<open>
  C4 as stated fails. The layout line \<^verbatim>\<open>0,-6A,6D\<close> parses to a configuration with no
  analog and six digital descriptors and the declared counts \<open>A = - 6\<close>, \<open>D = 6\<close>. Its
  stride is \<open>- 2\<close> (not \<open>8 + 2 * 0 + 2 * ceil (6 / 16) = 10\<close>), the index computed for the
  digital word of sample 0 is \<open>- 4\<close>, and the slice with that index counts from the end
  of the buffer: on an 8-byte file the word read is the one at offset 4.
\<close>

theorem C4_counterexample:
  "ComtradeConfig_parse neg_lines = Inr (neg_content [[], [], [], [], [], []]) \<and>
   ComtradeData_init neg_fs neg_config =
     Inr \<lparr>dat_result = ''parsed'', dat_path = ''neg.dat'', dat_body = Some neg_body\<rparr> \<and>
   length (analogInfo (neg_content [[], [], [], [], [], []])) = 0 \<and>
   length (digitalInfo (neg_content [[], [], [], [], [], []])) = 6 \<and>
   unitSize neg_body = - 2 \<and>
   8 + 2 * 0 + 2 * \<lceil>real_of_int 6 / 16\<rceil> = (10 :: int) \<and>
   int 0 * unitSize neg_body + 8 + 2 * ci_analog (channelInfo (neg_content [[], [], [], [], [], []]))
     + 2 * (int 0 div 16) = - 4 \<and>
   read_h neg_dat (- 4) = Inr 2 \<and>
   le_s16_at neg_dat 4 = Some 2 \<and>
   map d_data (digitalInfo (neg_content [[1], [0], [0], [0], [0], [0]])) = [[1], [0], [0], [0], [0], [0]]"
proof -
  have c: "\<lceil>real_of_int 6 / 16\<rceil> = (1 :: int)"
    by (simp add: ceiling_eq_iff)
  show ?thesis
    by (simp add: neg_parse neg_data_init neg_reads c)
      (simp add: neg_content_def neg_digital_def neg_channel_def neg_body_def scenario_content_def)
qed

text \<open>
  C4 (amended). For every configuration whose declared counts \<open>A\<close> and \<open>D\<close> are not
  negative and every decoding run that completes, the record stride is
  \<open>unitSize = 8 + 2 * A + 2 * ceil (D / 16)\<close>, which is \<open>8 + 2 * A\<close> when \<open>D = 0\<close>; the value
  appended to analog channel \<open>ch\<close> for sample \<open>i\<close> is computed from the signed 16-bit
  integer at byte offset \<open>i * unitSize + 8 + 2 * ch\<close>, and the value appended to digital
  channel \<open>ch\<close> from the one at byte offset \<open>i * unitSize + 8 + 2 * A + 2 * (ch div 16)\<close>.
  The integer is read in the byte order of the host, which is little-endian on the
  host the model fixes.
\<close>

theorem C4_record_stride_and_offsets:
  assumes "ComtradeData_init fs cfg = Inr d" and "dat_body d = Some b"
    and "cfg_content cfg = Some c0" and "cfg_content (config b) = Some c"
    and "A = ci_analog (channelInfo c0)" and "D = ci_digital (channelInfo c0)"
    and "0 \<le> A" and "0 \<le> D"
  shows "unitSize b = 8 + 2 * A + 2 * \<lceil>real_of_int D / 16\<rceil> \<and>
         (D = 0 \<longrightarrow> unitSize b = 8 + 2 * A) \<and>
         (\<exists>data. fs (dat_path d) = Some data \<and>
            (\<forall>i<nat (sampleCount b). \<forall>ch<nat A. \<exists>off raw.
                int off = int i * unitSize b + 8 + 2 * int ch \<and>
                le_s16_at data off = Some raw \<and>
                a_data (analogInfo c ! ch) ! (length (a_data (analogInfo c0 ! ch)) + i) =
                  real_of_int raw * a_a (analogInfo c0 ! ch) + a_b (analogInfo c0 ! ch)) \<and>
            (\<forall>i<nat (sampleCount b). \<forall>ch<nat D. \<exists>off raw.
                int off = int i * unitSize b + 8 + 2 * A + 2 * (int ch div 16) \<and>
                le_s16_at data off = Some raw \<and>
                d_data (digitalInfo c ! ch) ! (length (d_data (digitalInfo c0 ! ch)) + i) =
                  digital_bit (d_num (digitalInfo c0 ! ch)) raw))"
proof -
  from assms(1,2) obtain data
    where data: "fs (dat_path_of (cfg_path cfg)) = Some data"
      and dec: "ComtradeData_decode data (dat_path_of (cfg_path cfg)) cfg = Inr d"
    by (rule ComtradeData_init_body)
  from dec obtain b' c1 ais dis where c1: "cfg_content cfg = Some c1"
    and loop': "for_each [0..<nat (sampleCount b')]
           (sample_step data (unitSize b') (ci_analog (channelInfo c1)) (ci_digital (channelInfo c1)))
           (analogInfo c1, digitalInfo c1) = Inr (ais, dis)"
    and usize': "unitSize b' = 4 + 4 + digitalBytesLen (ci_digital (channelInfo c1)) + 2 * ci_analog (channelInfo c1)"
    and conf: "config b' = cfg\<lparr>cfg_content := Some (c1\<lparr>analogInfo := ais, digitalInfo := dis\<rparr>)\<rparr>"
    and path: "dat_path d = dat_path_of (cfg_path cfg)"
    and b': "dat_body d = Some b'"
    by (rule ComtradeData_decode_Inr)
  from b' assms(2) have bb: "b' = b" by simp
  from c1 assms(3) have cc: "c1 = c0" by simp
  from conf assms(4) bb cc have "c = c0\<lparr>analogInfo := ais, digitalInfo := dis\<rparr>" by simp
  then have c: "analogInfo c = ais" "digitalInfo c = dis" by simp_all
  let ?u = "unitSize b"
  let ?m = "nat (sampleCount b)"
  from loop' bb cc assms(5,6) have loop: "for_each [0..<?m] (sample_step data ?u A D)
           (analogInfo c0, digitalInfo c0) = Inr (ais, dis)"
    by simp
  from usize' bb cc assms(5,6) have usize: "?u = 8 + 2 * A + 2 * \<lceil>real_of_int D / 16\<rceil>"
    by (simp add: digitalBytesLen_ceiling)
  have "0 \<le> \<lceil>real_of_int D / 16\<rceil>" using assms(8) by simp
  with usize assms(7) have upos: "0 \<le> ?u" by simp
  have zero: "D = 0 \<longrightarrow> ?u = 8 + 2 * A" using usize by simp
  have analog: "\<exists>off raw. int off = int i * ?u + 8 + 2 * int ch \<and>
                le_s16_at data off = Some raw \<and>
                a_data (analogInfo c ! ch) ! (length (a_data (analogInfo c0 ! ch)) + i) =
                  real_of_int raw * a_a (analogInfo c0 ! ch) + a_b (analogInfo c0 ! ch)"
    if i: "i < ?m" and ch: "ch < nat A" for i ch
  proof -
    from sample_loop_analog [OF loop] ch obtain vals where v1: "length vals = ?m"
      and v2: "ais ! ch = (analogInfo c0 ! ch)\<lparr>a_data := a_data (analogInfo c0 ! ch) @ vals\<rparr>"
      and v3: "\<forall>i<?m. \<exists>raw. read_h data (int ch * 2 + (int i * ?u + 8)) = Inr raw \<and>
                 vals ! i = real_of_int raw * a_a (analogInfo c0 ! ch) + a_b (analogInfo c0 ! ch)"
      by blast
    from v3 i obtain raw where r1: "read_h data (int ch * 2 + (int i * ?u + 8)) = Inr raw"
      and r2: "vals ! i = real_of_int raw * a_a (analogInfo c0 ! ch) + a_b (analogInfo c0 ! ch)"
      by blast
    let ?off = "int i * ?u + 8 + 2 * int ch"
    have nonneg: "0 \<le> ?off" using upos by simp
    from r1 have "read_h data ?off = Inr raw" by (simp add: algebra_simps)
    with nonneg have le: "le_s16_at data (nat ?off) = Some raw"
      by (simp add: read_h_le_s16_at)
    from v1 v2 i have "a_data (analogInfo c ! ch) ! (length (a_data (analogInfo c0 ! ch)) + i) = vals ! i"
      by (simp add: c)
    with r2 le nonneg show ?thesis
      by (intro exI [of _ "nat ?off"] exI [of _ raw]) simp
  qed
  have digital: "\<exists>off raw. int off = int i * ?u + 8 + 2 * A + 2 * (int ch div 16) \<and>
                le_s16_at data off = Some raw \<and>
                d_data (digitalInfo c ! ch) ! (length (d_data (digitalInfo c0 ! ch)) + i) =
                  digital_bit (d_num (digitalInfo c0 ! ch)) raw"
    if i: "i < ?m" and ch: "ch < nat D" for i ch
  proof -
    from sample_loop_digital [OF loop] ch obtain vals where v1: "length vals = ?m"
      and v2: "dis ! ch = (digitalInfo c0 ! ch)\<lparr>d_data := d_data (digitalInfo c0 ! ch) @ vals\<rparr>"
      and v3: "\<forall>i<?m. 0 \<le> d_num (digitalInfo c0 ! ch) \<and>
           (\<exists>raw. read_h data ((int ch div 16) * 2 + (int i * ?u + 8 + 2 * A)) = Inr raw \<and>
                 vals ! i = digital_bit (d_num (digitalInfo c0 ! ch)) raw)"
      by blast
    from v3 i obtain raw where r1: "read_h data ((int ch div 16) * 2 + (int i * ?u + 8 + 2 * A)) = Inr raw"
      and r2: "vals ! i = digital_bit (d_num (digitalInfo c0 ! ch)) raw"
      by blast
    let ?off = "int i * ?u + 8 + 2 * A + 2 * (int ch div 16)"
    have "0 \<le> int ch div 16" by simp
    then have nonneg: "0 \<le> ?off" using upos assms(7) by simp
    from r1 have "read_h data ?off = Inr raw" by (simp add: algebra_simps)
    with nonneg have le: "le_s16_at data (nat ?off) = Some raw"
      by (simp add: read_h_le_s16_at)
    from v1 v2 i have "d_data (digitalInfo c ! ch) ! (length (d_data (digitalInfo c0 ! ch)) + i) = vals ! i"
      by (simp add: c)
    with r2 le nonneg show ?thesis
      by (intro exI [of _ "nat ?off"] exI [of _ raw]) simp
  qed
  from data path have "fs (dat_path d) = Some data" by simp
  with usize zero analog digital show ?thesis by blast
qed

theorem C4_witness:
  "ComtradeData_init scenario_fs scenario_config = Inr scenario_data \<and>
   dat_body scenario_data = Some scenario_body \<and>
   cfg_content scenario_config = Some scenario_parsed \<and>
   cfg_content (config scenario_body) = Some scenario_decoded \<and>
   2 = ci_analog (channelInfo scenario_parsed) \<and>
   1 = ci_digital (channelInfo scenario_parsed) \<and>
   (0 :: int) \<le> 2 \<and> (0 :: int) \<le> 1 \<and>
   unitSize scenario_body = 8 + 2 * 2 + 2 * \<lceil>real_of_int 1 / 16\<rceil> \<and>
   unitSize scenario_body = 14 \<and>
   le_s16_at scenario_dat 38 = Some (- 32768) \<and>
   a_data (analogInfo scenario_decoded ! 1) ! 2 = real_of_int (- 32768) * 2 + (- 1) \<and>
   le_s16_at scenario_dat 40 = Some (- 1) \<and>
   d_data (digitalInfo scenario_decoded ! 0) ! 2 = digital_bit 1 (- 1)"
proof -
  have h1: "ComtradeData_init scenario_fs scenario_config = Inr scenario_data"
    by (rule scenario_data_init)
  have h2: "dat_body scenario_data = Some scenario_body"
    by (simp add: scenario_data_def)
  have h3: "cfg_content scenario_config = Some scenario_parsed"
    by (simp add: scenario_config_def)
  have h4: "cfg_content (config scenario_body) = Some scenario_decoded"
    by (simp add: scenario_body_def)
  have h5: "2 = ci_analog (channelInfo scenario_parsed)"
    by (simp add: scenario_parsed_def scenario_content_def)
  have h6: "1 = ci_digital (channelInfo scenario_parsed)"
    by (simp add: scenario_parsed_def scenario_content_def)
  have h7: "(0 :: int) \<le> 2" and h8: "(0 :: int) \<le> 1"
    by simp_all
  note c4 = C4_record_stride_and_offsets [OF h1 h2 h3 h4 h5 h6 h7 h8]
  from c4 have u: "unitSize scenario_body = 8 + 2 * 2 + 2 * \<lceil>real_of_int 1 / 16\<rceil>"
    by blast
  have u14: "unitSize scenario_body = 14"
    by (simp add: scenario_body_def)
  from c4 obtain data where d: "scenario_fs (dat_path scenario_data) = Some data"
    and an: "\<forall>i<nat (sampleCount scenario_body). \<forall>ch<nat 2. \<exists>off raw.
                int off = int i * unitSize scenario_body + 8 + 2 * int ch \<and>
                le_s16_at data off = Some raw \<and>
                a_data (analogInfo scenario_decoded ! ch) ! (length (a_data (analogInfo scenario_parsed ! ch)) + i) =
                  real_of_int raw * a_a (analogInfo scenario_parsed ! ch) + a_b (analogInfo scenario_parsed ! ch)"
    and di: "\<forall>i<nat (sampleCount scenario_body). \<forall>ch<nat 1. \<exists>off raw.
                int off = int i * unitSize scenario_body + 8 + 2 * 2 + 2 * (int ch div 16) \<and>
                le_s16_at data off = Some raw \<and>
                d_data (digitalInfo scenario_decoded ! ch) ! (length (d_data (digitalInfo scenario_parsed ! ch)) + i) =
                  digital_bit (d_num (digitalInfo scenario_parsed ! ch)) raw"
    by blast
  from d have data: "data = scenario_dat"
    by (simp add: scenario_data_def scenario_fs_def)
  have cnt: "(2 :: nat) < nat (sampleCount scenario_body)"
    by (simp add: scenario_body_def)
  have ch1: "(1 :: nat) < nat 2" and ch0: "(0 :: nat) < nat 1" by simp_all
  from an [rule_format, OF cnt ch1]
  obtain off raw where o1: "int off = int 2 * unitSize scenario_body + 8 + 2 * int 1"
    and o2: "le_s16_at data off = Some raw"
    and o3: "a_data (analogInfo scenario_decoded ! 1) ! (length (a_data (analogInfo scenario_parsed ! 1)) + 2) =
               real_of_int raw * a_a (analogInfo scenario_parsed ! 1) + a_b (analogInfo scenario_parsed ! 1)"
    by blast
  from o1 have "off = 38" by (simp add: u14)
  with o2 data scenario_words(1) have raw: "raw = - 32768" by simp
  have a: "a_data (analogInfo scenario_decoded ! 1) ! 2 = real_of_int (- 32768) * 2 + (- 1)"
    using o3 by (simp add: raw scenario_parsed_def scenario_content_def scenario_analog_def numeral_2_eq_2)
  from di [rule_format, OF cnt ch0]
  obtain off' raw' where q1: "int off' = int 2 * unitSize scenario_body + 8 + 2 * 2 + 2 * (int 0 div 16)"
    and q2: "le_s16_at data off' = Some raw'"
    and q3: "d_data (digitalInfo scenario_decoded ! 0) ! (length (d_data (digitalInfo scenario_parsed ! 0)) + 2) =
               digital_bit (d_num (digitalInfo scenario_parsed ! 0)) raw'"
    by blast
  from q1 have "off' = 40" by (simp add: u14)
  with q2 data scenario_words(2) have raw': "raw' = - 1" by simp
  have b: "d_data (digitalInfo scenario_decoded ! 0) ! 2 = digital_bit 1 (- 1)"
    using q3 by (simp add: raw' scenario_parsed_def scenario_content_def scenario_digital_def numeral_2_eq_2)
  from h1 h2 h3 h4 h5 h6 h7 h8 u u14 a b scenario_words show ?thesis
    by blast
qed






text \<open>
  C7 (fails on the code). The claim: when the binary sibling of a parsed
  configuration does not exist, the data stage reports the missing file and its
  outputs are empty. The decoder does not look for the sibling: it looks for the
  configuration path cut at its first dot, followed by \<^verbatim>\<open>.dat\<close>. For the
  configuration \<^verbatim>\<open>a.b.cfg\<close>, with \<^verbatim>\<open>a.b.dat\<close> absent and a file \<^verbatim>\<open>a.dat\<close> present, the
  data stage decodes \<^verbatim>\<open>a.dat\<close>: its status is \<^verbatim>\<open>'parsed'\<close>, its time vector and its
  analog mapping are not empty. (What holds for the path the decoder computes is
  lemma \<open>ComtradeData_init_without_file\<close>.)
\<close>

theorem C7_other_file_is_decoded:
  "ComtradeConfig_init stray_fs ''a.b.cfg'' = Inr stray_config \<and>
   cfg_result stray_config = ''parsed'' \<and>
   stray_fs ''a.b.dat'' = None \<and>
   map_sum id (\<lambda>d. (dat_result d, dat_path d)) (ComtradeData_init stray_fs stray_config)
     = Inr (''parsed'', ''a.dat'') \<and>
   bind_err (ComtradeData_init stray_fs stray_config) ComtradeData_t
     = Inr [0, 3 / 2000, 3 / 1000] \<and>
   bind_err (ComtradeData_init stray_fs stray_config)
      (\<lambda>d. map_sum id (\<lambda>m. m ''UA(V)'') (ComtradeData_analog d))
     = Inr (Some [2, 3, 129])"
proof -
  have "stray_fs ''a.b.dat'' = None" "cfg_result stray_config = ''parsed''"
    by (simp_all add: stray_fs_def stray_config_def)
  then show ?thesis
    by (simp add: stray_config_init stray_data_init ComtradeData_t_def ComtradeData_analog_def
        body_of_def scenario_body_def linspace_def upt_conv_Cons scenario_analog_map)
qed

text \<open>
  C8. For every configuration, every file system and every data-encoding token, the
  decoder run on the configuration with its token replaced gives the same outcome as
  on the configuration itself: the same exception, or the same time vector, analog
  mapping and digital mapping. The decoder never reads the token.
\<close>

theorem C8_encoding_token_is_ignored:
  "map_sum id outputs (ComtradeData_init fs (with_dataFormat tok cfg)) =
   map_sum id outputs (ComtradeData_init fs cfg)"
proof -
  have same: "cfg_path (with_dataFormat tok cfg) = cfg_path cfg"
    "cfg_result (with_dataFormat tok cfg) = cfg_result cfg"
    by (simp_all add: with_dataFormat_def)
  show ?thesis
  proof (cases "fs (dat_path_of (cfg_path cfg))")
    case None
    then show ?thesis by (simp add: ComtradeData_init_def Let_def same)
  next
    case (Some data)
    then show ?thesis by (simp add: ComtradeData_init_def Let_def same decode_with_dataFormat)
  qed
qed

text \<open>
  C9 as stated fails: construction also completes without raising for a path that
  contains neither \<^verbatim>\<open>.cfg\<close> nor \<^verbatim>\<open>.dat\<close>, and then the parser-level result is
  \<^verbatim>\<open>'not a comtrade file: <path>'\<close>, not \<^verbatim>\<open>'parsed'\<close>.
\<close>

theorem C9_counterexample:
  "ComtradeParser_init Map.empty ''notes.txt'' =
     Inr \<lparr>p_result = ''not a comtrade file: notes.txt'', p_session = None\<rparr> \<and>
   ''not a comtrade file: notes.txt'' \<noteq> ''parsed''"
  by (simp add: ComtradeParser_init_def)

text \<open>
  C9 (amended). Whenever \<^verbatim>\<open>ComtradeParser\<close> construction completes without raising for
  a path that contains \<^verbatim>\<open>.cfg\<close> or \<^verbatim>\<open>.dat\<close>, the parser-level result is \<^verbatim>\<open>'parsed'\<close>
  and the configuration was parsed; this is so even if the file the data stage looks
  for (the configuration path cut at its first dot, followed by \<^verbatim>\<open>.dat\<close>) was
  missing, in which case the data-stage result is \<^verbatim>\<open>'no file'\<close> and the session's
  analog and digital mappings and its time vector are empty. For every path that
  contains neither \<^verbatim>\<open>.cfg\<close> nor \<^verbatim>\<open>.dat\<close>, construction completes without raising
  with the result \<^verbatim>\<open>'not a comtrade file: <path>'\<close> and no session.
\<close>

theorem C9_parser_status_hides_data_stage:
  "(ComtradeParser_init fs path = Inr p \<and> (contains ''.cfg'' path \<or> contains ''.dat'' path) \<longrightarrow>
      p_result p = ''parsed'' \<and>
      (\<exists>s. p_session p = Some s \<and> cfg_result (p_config s) = ''parsed'' \<and>
           dat_path (p_dat s) = dat_path_of (cfg_path (p_config s)) \<and>
           (fs (dat_path (p_dat s)) = None \<longrightarrow>
              dat_result (p_dat s) = ''no file'' \<and> p_analog s = Map.empty \<and>
              p_digital s = Map.empty \<and> p_t s = []))) \<and>
   (\<not> contains ''.cfg'' path \<and> \<not> contains ''.dat'' path \<longrightarrow>
      ComtradeParser_init fs path =
        Inr \<lparr>p_result = ''not a comtrade file: '' @ path, p_session = None\<rparr>)"
proof (intro conjI impI)
  assume a: "ComtradeParser_init fs path = Inr p \<and> (contains ''.cfg'' path \<or> contains ''.dat'' path)"
  then have init: "ComtradeParser_init fs path = Inr p"
    and ok: "contains ''.cfg'' path \<or> contains ''.dat'' path"
    by (rule conjunct1, rule conjunct2)
  from init ok obtain s where s: "p_session p = Some s"
    using ComtradeParser_init_has_session by blast
  from init s obtain c where cfg: "ComtradeConfig_init fs (p_path s @ ''.cfg'') = Inr (p_config s)"
    and dat: "ComtradeData_init fs (p_config s) = Inr (p_dat s)"
    and an: "ComtradeData_analog (p_dat s) = Inr (p_analog s)"
    and di: "ComtradeData_digital (p_dat s) = Inr (p_digital s)"
    and t: "ComtradeData_t (p_dat s) = Inr (p_t s)"
    and c: "cfg_content (p_config s) = Some c" and "0 < length (sampleInfo c)"
    and "p_fs s = s_rate (sampleInfo c ! 0)" and res: "p_result p = ''parsed''"
    and "contains ''.cfg'' path \<or> contains ''.dat'' path"
    by (rule ComtradeParser_init_session)
  show "p_result p = ''parsed''" by (rule res)
  from cfg c have parsed: "cfg_result (p_config s) = ''parsed''"
    by (rule ComtradeConfig_init_result)
  from dat have path: "dat_path (p_dat s) = dat_path_of (cfg_path (p_config s))"
    by (rule ComtradeData_init_path)
  have empty: "dat_result (p_dat s) = ''no file'' \<and> p_analog s = Map.empty \<and>
        p_digital s = Map.empty \<and> p_t s = []"
    if missing: "fs (dat_path (p_dat s)) = None"
  proof -
    from dat parsed missing have nf: "dat_result (p_dat s) = ''no file''"
      by (rule ComtradeData_init_no_file)
    then have "dat_result (p_dat s) \<noteq> ''parsed''" by simp
    from no_body_accessors [OF this] an di t nf show ?thesis by simp
  qed
  show "\<exists>s. p_session p = Some s \<and> cfg_result (p_config s) = ''parsed'' \<and>
           dat_path (p_dat s) = dat_path_of (cfg_path (p_config s)) \<and>
           (fs (dat_path (p_dat s)) = None \<longrightarrow>
              dat_result (p_dat s) = ''no file'' \<and> p_analog s = Map.empty \<and>
              p_digital s = Map.empty \<and> p_t s = [])"
  proof (intro exI [of _ s] conjI impI)
    show "p_session p = Some s" by (rule s)
    show "cfg_result (p_config s) = ''parsed''" by (rule parsed)
    show "dat_path (p_dat s) = dat_path_of (cfg_path (p_config s))" by (rule path)
  qed (simp_all add: empty)
next
  assume "\<not> contains ''.cfg'' path \<and> \<not> contains ''.dat'' path"
  then show "ComtradeParser_init fs path =
        Inr \<lparr>p_result = ''not a comtrade file: '' @ path, p_session = None\<rparr>"
    by (simp add: guard_rejects_path)
qed

theorem C9_witness:
  "ComtradeParser_init cfg_only_fs ''rec.cfg'' = Inr cfg_only_parser \<and>
   (contains ''.cfg'' ''rec.cfg'' \<or> contains ''.dat'' ''rec.cfg'') \<and>
   cfg_only_fs (dat_path (p_dat cfg_only_session)) = None \<and>
   \<not> contains ''.cfg'' ''readme.md'' \<and> \<not> contains ''.dat'' ''readme.md'' \<and>
   p_result cfg_only_parser = ''parsed'' \<and>
   p_result scenario_parser = ''parsed'' \<and>
   dat_result (p_dat cfg_only_session) = ''no file'' \<and>
   p_analog cfg_only_session = Map.empty \<and> p_digital cfg_only_session = Map.empty \<and>
   p_t cfg_only_session = [] \<and>
   ComtradeParser_init scenario_fs ''readme.md'' =
     Inr \<lparr>p_result = ''not a comtrade file: '' @ ''readme.md'', p_session = None\<rparr>"
proof -
  have h1: "ComtradeParser_init cfg_only_fs ''rec.cfg'' = Inr cfg_only_parser"
    by (rule cfg_only_parser_init)
  have h2: "contains ''.cfg'' ''rec.cfg'' \<or> contains ''.dat'' ''rec.cfg''"
    by simp
  have h3: "cfg_only_fs (dat_path (p_dat cfg_only_session)) = None"
    by (simp add: cfg_only_session_def cfg_only_fs_def)
  have h4: "\<not> contains ''.cfg'' ''readme.md''" and h5: "\<not> contains ''.dat'' ''readme.md''"
    by simp_all
  note c9 = C9_parser_status_hides_data_stage [of cfg_only_fs "''rec.cfg''" cfg_only_parser, THEN conjunct1, THEN mp,
      OF conjI, OF h1 h2]
  from c9 have r: "p_result cfg_only_parser = ''parsed''"
    by (rule conjunct1)
  from c9 have "\<exists>s. p_session cfg_only_parser = Some s \<and> cfg_result (p_config s) = ''parsed'' \<and>
           dat_path (p_dat s) = dat_path_of (cfg_path (p_config s)) \<and>
           (cfg_only_fs (dat_path (p_dat s)) = None \<longrightarrow>
              dat_result (p_dat s) = ''no file'' \<and> p_analog s = Map.empty \<and>
              p_digital s = Map.empty \<and> p_t s = [])"
    by (rule conjunct2)
  then obtain s where s: "p_session cfg_only_parser = Some s"
    and imp: "cfg_only_fs (dat_path (p_dat s)) = None \<longrightarrow>
               dat_result (p_dat s) = ''no file'' \<and> p_analog s = Map.empty \<and>
               p_digital s = Map.empty \<and> p_t s = []"
    by (elim exE conjE)
  from s have "s = cfg_only_session" by (simp add: cfg_only_parser_def)
  with imp h3 have e: "dat_result (p_dat cfg_only_session) = ''no file'' \<and>
      p_analog cfg_only_session = Map.empty \<and> p_digital cfg_only_session = Map.empty \<and>
      p_t cfg_only_session = []"
    by (simp only: simp_thms)
  have q: "p_result scenario_parser = ''parsed''"
    by (simp add: scenario_parser_def)
  note g = C9_parser_status_hides_data_stage [of scenario_fs "''readme.md''" cfg_only_parser, THEN conjunct2, THEN mp,
      OF conjI, OF h4 h5]
  show ?thesis
    by (intro conjI) (rule h1 h2 h3 h4 h5 r q g e [THEN conjunct1] e [THEN conjunct2, THEN conjunct1]
        e [THEN conjunct2, THEN conjunct2, THEN conjunct1]
        e [THEN conjunct2, THEN conjunct2, THEN conjunct2])+
qed



end
